theory Spec2Isabelle
  imports Complex_Main "HOL-Library.Word"
begin

section \<open>Carving preprocessing: a shallow embedding of opPreprocessing.py\<close>

text \<open>
  The operators of \<^verbatim>\<open>ilastik/workflows/carving/opPreprocessing.py\<close> are embedded as
  HOL functions. Exceptions are values of the type \<open>error\<close>; a function that may raise
  returns \<open>error + 'a\<close> with \<open>Inl\<close> for the exception. Calls into collaborators whose
  code is not part of the file (vigra, carvingTools, the watershed segmentor, the request
  thread pool) are parameters of the embedded functions.
\<close>

datatype error =
  AssertionError
  | ValueError
  | KeyError
  | IndexError
  | Failure string  \<comment> \<open>any exception raised inside a collaborator\<close>

subsection \<open>OpPreprocessing: the orchestrator\<close>

text \<open>
  Objects are referred to by address. \<open>self.cachedResult\<close> is either the private
  one-element list \<^verbatim>\<open>[None]\<close> that \<^verbatim>\<open>__init__\<close> and \<^verbatim>\<open>propagateDirty\<close> create (it is never
  handed out, so all such lists are represented by \<open>Placeholder\<close>), or a result buffer that
  a caller passed to \<^verbatim>\<open>execute\<close>. The store gives element 0 of every result buffer;
  \<open>None\<close> is Python's \<^verbatim>\<open>None\<close>.
\<close>

type_synonym addr = nat

datatype objref = Placeholder | Buffer addr

type_synonym 'm store = "addr \<Rightarrow> 'm option"

fun elem0 :: "'m store \<Rightarrow> objref \<Rightarrow> 'm option" where
  "elem0 st Placeholder = None"
| "elem0 st (Buffer a) = st a"

datatype input_slot =
  OverlayData | InputData | Sigma | Filter | DoAgglo | SizeRegularizer | ReduceTo

datatype output_slot =
  PreprocessedData | FilteredImage | WatershedImage | WatershedSourceImage

text \<open>The values of the parameter slots at the time of a call.\<close>

record slot_values =
  Sigma_value :: real
  Filter_value :: int
  DoAgglo_value :: int
  SizeRegularizer_value :: real
  ReduceTo_value :: real

record 'm opPreprocessing =
  cachedResult :: objref
  hasUnsavedData :: bool
  dirty :: bool
  deserialized :: bool
  cachedSigma :: "real option"
  cachedFilter :: "int option"
  cachedDoAgglo :: "int option"
  cachedSizeRegularizer :: "real option"
  cachedReduceTo :: "real option"
  store :: "'m store"

text \<open>The fields as \<^verbatim>\<open>__init__\<close> sets them, over a given store.\<close>

definition init :: "'m store \<Rightarrow> 'm opPreprocessing" where
  "init st =
     \<lparr> cachedResult = Placeholder, hasUnsavedData = False, dirty = False,
       deserialized = False, cachedSigma = None, cachedFilter = None,
       cachedDoAgglo = None, cachedSizeRegularizer = None, cachedReduceTo = None,
       store = st \<rparr>"

text \<open>
  What a call does that is visible outside the operator: \<open>RequestMst\<close> is the evaluation
  of \<^verbatim>\<open>self._opMstProvider.MST.value\<close>, which runs the filter, watershed and graph chain;
  \<open>SetDirtyPreprocessedData\<close> is \<^verbatim>\<open>self.PreprocessedData.setDirty(slice(None))\<close>.
\<close>

datatype event = RequestMst | SetDirtyPreprocessedData

text \<open>
  \<^verbatim>\<open>OpPreprocessing.execute(slot, subindex, roi, result)\<close>. \<open>mst_value\<close> is what
  evaluating \<^verbatim>\<open>self._opMstProvider.MST.value\<close> yields at this moment (an exception or a
  segmentor object); it is looked at only where the source evaluates it. \<open>result\<close> is the
  address of the caller's result buffer.
\<close>

definition execute ::
  "output_slot \<Rightarrow> slot_values \<Rightarrow> error + 'm \<Rightarrow> addr \<Rightarrow> 'm opPreprocessing
     \<Rightarrow> (error + objref) \<times> event list \<times> 'm opPreprocessing" where
  "execute slot vals mst_value result s =
     (if slot \<noteq> PreprocessedData then (Inl AssertionError, [], s)
      else if \<not> dirty s \<and> elem0 (store s) (cachedResult s) \<noteq> None
        then (Inr (cachedResult s), [], s)
      else
        (case mst_value of
           Inl e \<Rightarrow> (Inl e, [RequestMst], s)
         | Inr mst \<Rightarrow>
             (Inr (Buffer result), [RequestMst, SetDirtyPreprocessedData],
              s\<lparr> cachedSigma := Some (Sigma_value vals),
                 cachedFilter := Some (Filter_value vals),
                 cachedDoAgglo := Some (DoAgglo_value vals),
                 cachedSizeRegularizer := Some (SizeRegularizer_value vals),
                 cachedReduceTo := Some (ReduceTo_value vals),
                 hasUnsavedData := True,
                 dirty := False,
                 cachedResult := Buffer result,
                 store := (store s)(result := Some mst) \<rparr>)))"

definition outcome_of :: "'a \<times> 'b \<times> 'c \<Rightarrow> 'a" where
  "outcome_of t = fst t"

definition events_of :: "'a \<times> 'b \<times> 'c \<Rightarrow> 'b" where
  "events_of t = fst (snd t)"

definition state_of :: "'a \<times> 'b \<times> 'c \<Rightarrow> 'c" where
  "state_of t = snd (snd t)"

text \<open>\<^verbatim>\<open>OpPreprocessing.propagateDirty(slot, subindex, roi)\<close>.\<close>

definition propagateDirty :: "input_slot \<Rightarrow> 'm opPreprocessing \<Rightarrow> 'm opPreprocessing" where
  "propagateDirty slot s =
     (let s1 = (if slot = InputData
                then s\<lparr> cachedSigma := None, cachedFilter := None, cachedDoAgglo := None,
                        cachedSizeRegularizer := None, cachedReduceTo := None,
                        cachedResult := Placeholder \<rparr>
                else s)
      in s1\<lparr> dirty := True \<rparr>)"

text \<open>
  Consecutive requests of \<^verbatim>\<open>PreprocessedData\<close>, one per result buffer of the list, with
  no change of a parameter or of the input in between: the slot values and what the chain
  yields are the same for every call.
\<close>

fun getResults ::
  "slot_values \<Rightarrow> error + 'm \<Rightarrow> addr list \<Rightarrow> 'm opPreprocessing
     \<Rightarrow> (error + objref) list \<times> event list \<times> 'm opPreprocessing" where
  "getResults vals mst_value [] s = ([], [], s)"
| "getResults vals mst_value (r # rs) s =
     (case execute PreprocessedData vals mst_value r s of
        (out, evs, s1) \<Rightarrow>
          (case getResults vals mst_value rs s1 of
             (outs, evs', s2) \<Rightarrow> (out # outs, evs @ evs', s2)))"

subsection \<open>OpMstSegmentorProvider: the graph builder\<close>

text \<open>
  The applet the operator reports to: its \<open>progress\<close> attribute and, in order, the
  values \<^verbatim>\<open>progressSignal\<close> was called with.
\<close>

record applet =
  progress :: real
  signals :: "real list"

definition progressSignal :: "real \<Rightarrow> applet \<Rightarrow> applet" where
  "progressSignal x a = a\<lparr> signals := signals a @ [x] \<rparr>"

text \<open>The closure \<^verbatim>\<open>updateProgressBar\<close> of \<^verbatim>\<open>execute\<close>.\<close>

definition updateProgressBar :: "real \<Rightarrow> applet \<Rightarrow> applet" where
  "updateProgressBar x a =
     (if x - progress a > 1 \<or> x = 100
      then (progressSignal x a)\<lparr> progress := x \<rparr>
      else a)"

text \<open>The operator has one output slot.\<close>

datatype mst_provider_slot = MST

text \<open>
  The segmentor object: what the constructor built and its \<open>raw\<close> attribute.
\<close>

record ('g, 'v) segmentor =
  graph :: 'g
  raw :: "'v option"

text \<open>
  \<^verbatim>\<open>OpMstSegmentorProvider.execute\<close>. \<open>image_read\<close> and \<open>label_read\<close> are what the
  whole-volume reads of \<^verbatim>\<open>Image\<close> and \<^verbatim>\<open>LabelImage\<close> yield. \<open>new_segmentor\<close> stands for
  \<^verbatim>\<open>WatershedSegmentor(...)\<close>, the constructor of the
  carving backend: given the label volume and the feature volume it reports the values
  it calls \<open>progressCallback\<close> with, in order, and then either raises or returns the object.
  The \<^verbatim>\<open>try ... finally\<close> is \<open>body\<close> followed, on every outcome, by
  \<^verbatim>\<open>progressSignal(100)\<close>.
\<close>

definition OpMstSegmentorProvider_body ::
  "(error + 'f) \<Rightarrow> (error + 'l) \<Rightarrow> ('l \<Rightarrow> 'f \<Rightarrow> real list \<times> (error + ('g, 'v) segmentor))
     \<Rightarrow> applet \<Rightarrow> (error + ('g, 'v) segmentor) \<times> applet" where
  "OpMstSegmentorProvider_body image_read label_read new_segmentor a =
     (case image_read of
        Inl e \<Rightarrow> (Inl e, a)
      | Inr volume_feat \<Rightarrow>
          (case label_read of
             Inl e \<Rightarrow> (Inl e, a)
           | Inr labelVolume \<Rightarrow>
               (let a0 = a\<lparr> progress := 0 \<rparr>;
                    (calls, built) = new_segmentor labelVolume volume_feat;
                    a1 = fold updateProgressBar calls a0
                in (case built of
                      Inl e \<Rightarrow> (Inl e, a1)
                    | Inr newMst \<Rightarrow> (Inr (newMst\<lparr> raw := None \<rparr>), a1)))))"

definition OpMstSegmentorProvider_execute ::
  "mst_provider_slot \<Rightarrow> (error + 'f) \<Rightarrow> (error + 'l)
     \<Rightarrow> ('l \<Rightarrow> 'f \<Rightarrow> real list \<times> (error + ('g, 'v) segmentor))
     \<Rightarrow> applet \<Rightarrow> (error + ('g, 'v) segmentor) \<times> applet" where
  "OpMstSegmentorProvider_execute slot image_read label_read new_segmentor a =
     (if slot \<noteq> MST then (Inl AssertionError, a)
      else
        (let a0 = progressSignal (- 1) a;
             (res, a1) = OpMstSegmentorProvider_body image_read label_read new_segmentor a0
         in (res, progressSignal 100 a1)))"

subsection \<open>Arrays, regions of interest and floating-point elements\<close>

text \<open>
  An array is its shape and its elements in C order. A region of interest is a start and a
  stop coordinate per axis. A slot is asked for a region and yields the array of that
  region, or raises.
\<close>

record 'a ndarray =
  shape :: "nat list"
  data :: "'a list"

definition ndim :: "'a ndarray \<Rightarrow> nat" where
  "ndim a = length (shape a)"


record roi =
  start :: "nat list"
  stop :: "nat list"

definition roiFromShape :: "nat list \<Rightarrow> roi" where
  "roiFromShape sh = \<lparr> start = map (\<lambda>_. 0) sh, stop = sh \<rparr>"

definition valid_roi :: "nat list \<Rightarrow> roi \<Rightarrow> bool" where
  "valid_roi sh r \<longleftrightarrow>
     length (start r) = length sh \<and> length (stop r) = length sh
     \<and> list_all2 (\<le>) (start r) (stop r) \<and> list_all2 (\<le>) (stop r) sh"

definition extent :: "roi \<Rightarrow> nat list" where
  "extent r = map2 (-) (stop r) (start r)"

text \<open>The elements of the box from \<open>as\<close> up to \<open>bs\<close> of an array of shape \<open>ns\<close>, in C order.\<close>

fun region :: "nat list \<Rightarrow> nat list \<Rightarrow> nat list \<Rightarrow> 'a list \<Rightarrow> 'a list" where
  "region (n # ns) (a # as) (b # bs) xs =
     concat (map (\<lambda>i. region ns as bs (take (prod_list ns) (drop (i * prod_list ns) xs)))
               [a..<b])"
| "region _ _ _ xs = xs"

type_synonym 'a slot = "roi \<Rightarrow> error + 'a ndarray"

text \<open>A slot that serves the regions of a materialised array; a region outside is refused.\<close>

definition array_slot :: "'a ndarray \<Rightarrow> 'a slot" where
  "array_slot a r =
     (if valid_roi (shape a) r
      then Inr \<lparr> shape = extent r, data = region (shape a) (start r) (stop r) (data a) \<rparr>
      else Inl (Failure ''region outside of the array''))"

text \<open>
  Array elements are IEEE single-precision values: a finite number, an infinity or
  not-a-number. \<open>round32\<close> takes the exact result of an operation to the nearest
  single-precision value, ties to the even significand: 24 significant bits, exponents
  from \<open>-126\<close> to \<open>127\<close>, subnormal numbers below \<open>2 powi (- 126)\<close>, and an infinity
  from \<open>2 ^ 128 - 2 ^ 103\<close> on. Every arithmetic operation rounds its exact result in
  this way, as numpy does on a \<^verbatim>\<open>float32\<close> array; a division by zero and the arithmetic of
  infinities give what IEEE arithmetic gives, without raising. The sign of a zero is not
  kept.
\<close>

datatype fl = Fin real | PInf | NInf | NaN

definition round_even :: "real \<Rightarrow> int" where
  "round_even r =
     (let f = \<lfloor>r\<rfloor>; d = r - of_int f
      in if d < 1 / 2 then f else if d > 1 / 2 then f + 1 else if even f then f else f + 1)"

text \<open>
  The exponent of a positive number, not below \<open>-126\<close> and not above \<open>127\<close>: halved
  while it is at least 2, doubled while it is below 1.
\<close>

fun exponent_up :: "nat \<Rightarrow> real \<Rightarrow> int \<Rightarrow> int" where
  "exponent_up 0 a e = e"
| "exponent_up (Suc n) a e = (if a \<ge> 2 then exponent_up n (a / 2) (e + 1) else e)"

fun exponent_down :: "nat \<Rightarrow> real \<Rightarrow> int \<Rightarrow> int" where
  "exponent_down 0 a e = e"
| "exponent_down (Suc n) a e = (if a < 1 then exponent_down n (a * 2) (e - 1) else e)"

definition exponent32 :: "real \<Rightarrow> int" where
  "exponent32 a = (if a \<ge> 1 then exponent_up 127 a 0 else exponent_down 126 a 0)"

definition round32 :: "real \<Rightarrow> fl" where
  "round32 x =
     (if x = 0 then Fin 0
      else
        (let a = \<bar>x\<bar>;
             q = 2 powi (exponent32 a - 23);
             y = of_int (round_even (a / q)) * q
         in if y \<ge> 2 ^ 128 then (if x > 0 then PInf else NInf)
            else Fin (if x > 0 then y else - y)))"


text \<open>\<^verbatim>\<open>numpy.asarray(volume, numpy.float32)\<close> on one element.\<close>

fun to_float32 :: "fl \<Rightarrow> fl" where
  "to_float32 (Fin a) = round32 a"
| "to_float32 v = v"

fun fneg :: "fl \<Rightarrow> fl" where
  "fneg (Fin a) = Fin (- a)"
| "fneg PInf = NInf"
| "fneg NInf = PInf"
| "fneg NaN = NaN"

fun fadd :: "fl \<Rightarrow> fl \<Rightarrow> fl" where
  "fadd (Fin a) (Fin b) = round32 (a + b)"
| "fadd NaN _ = NaN"
| "fadd _ NaN = NaN"
| "fadd PInf NInf = NaN"
| "fadd NInf PInf = NaN"
| "fadd PInf _ = PInf"
| "fadd _ PInf = PInf"
| "fadd NInf _ = NInf"
| "fadd _ NInf = NInf"

definition fsub :: "fl \<Rightarrow> fl \<Rightarrow> fl" where
  "fsub x y = fadd x (fneg y)"

definition signed_inf :: "real \<Rightarrow> fl" where
  "signed_inf a = (if a = 0 then NaN else if a > 0 then PInf else NInf)"

fun fmul :: "fl \<Rightarrow> fl \<Rightarrow> fl" where
  "fmul (Fin a) (Fin b) = round32 (a * b)"
| "fmul NaN _ = NaN"
| "fmul _ NaN = NaN"
| "fmul (Fin a) PInf = signed_inf a"
| "fmul (Fin a) NInf = signed_inf (- a)"
| "fmul PInf (Fin b) = signed_inf b"
| "fmul NInf (Fin b) = signed_inf (- b)"
| "fmul PInf PInf = PInf"
| "fmul NInf NInf = PInf"
| "fmul PInf NInf = NInf"
| "fmul NInf PInf = NInf"

fun fdiv :: "fl \<Rightarrow> fl \<Rightarrow> fl" where
  "fdiv (Fin a) (Fin b) = (if b = 0 then signed_inf a else round32 (a / b))"
| "fdiv NaN _ = NaN"
| "fdiv _ NaN = NaN"
| "fdiv (Fin a) _ = Fin 0"
| "fdiv PInf (Fin b) = (if b \<ge> 0 then PInf else NInf)"
| "fdiv NInf (Fin b) = (if b \<ge> 0 then NInf else PInf)"
| "fdiv _ _ = NaN"

text \<open>\<^verbatim>\<open>numpy.max\<close> and \<^verbatim>\<open>numpy.min\<close>: not-a-number wins; an empty array is refused.\<close>

fun fmax2 :: "fl \<Rightarrow> fl \<Rightarrow> fl" where
  "fmax2 (Fin a) (Fin b) = Fin (max a b)"
| "fmax2 NaN _ = NaN"
| "fmax2 _ NaN = NaN"
| "fmax2 PInf _ = PInf"
| "fmax2 _ PInf = PInf"
| "fmax2 NInf y = y"
| "fmax2 x NInf = x"

fun fmin2 :: "fl \<Rightarrow> fl \<Rightarrow> fl" where
  "fmin2 (Fin a) (Fin b) = Fin (min a b)"
| "fmin2 NaN _ = NaN"
| "fmin2 _ NaN = NaN"
| "fmin2 NInf _ = NInf"
| "fmin2 _ NInf = NInf"
| "fmin2 PInf y = y"
| "fmin2 x PInf = x"

fun numpy_max :: "fl list \<Rightarrow> error + fl" where
  "numpy_max [] = Inl ValueError"
| "numpy_max (x # xs) = Inr (fold fmax2 xs x)"

fun numpy_min :: "fl list \<Rightarrow> error + fl" where
  "numpy_min [] = Inl ValueError"
| "numpy_min (x # xs) = Inr (fold fmin2 xs x)"

subsection \<open>OpNormalize255\<close>

text \<open>
  \<^verbatim>\<open>OpNormalize255.execute\<close>: the requested region of the input is read into the result
  buffer; maximum and minimum are those of the buffer; the three in-place updates follow,
  each rounding every element to single precision.
\<close>

definition OpNormalize255_execute :: "fl slot \<Rightarrow> roi \<Rightarrow> error + fl ndarray" where
  "OpNormalize255_execute Input r =
     (case Input r of
        Inl e \<Rightarrow> Inl e
      | Inr result \<Rightarrow>
          (case numpy_max (data result) of
             Inl e \<Rightarrow> Inl e
           | Inr volume_max \<Rightarrow>
               (case numpy_min (data result) of
                  Inl e \<Rightarrow> Inl e
                | Inr volume_min \<Rightarrow>
                    (let r1 = map (\<lambda>x. fsub x volume_min) (data result);
                         r2 = map (\<lambda>x. fmul x (Fin 255)) r1;
                         r3 = map (\<lambda>x. fdiv x (fsub volume_max volume_min)) r2
                     in Inr (result\<lparr> data := r3 \<rparr>)))))"


subsection \<open>Indexing with leading and trailing zeros around an ellipsis\<close>

text \<open>
  \<^verbatim>\<open>a[0, ..., 0]\<close> and \<^verbatim>\<open>a[0, ..., 0, 0]\<close> are the views \<open>f = 1\<close>, \<open>b = 1\<close> and
  \<open>f = 1\<close>, \<open>b = 2\<close> of the functions below; \<^verbatim>\<open>a[0, :, :, :, 0]\<close> on five axes is the
  first of them, and \<^verbatim>\<open>a[0, :, :, :, 0][:, :, 0]\<close> the second.
\<close>

definition view_shape :: "nat \<Rightarrow> nat \<Rightarrow> nat list \<Rightarrow> nat list" where
  "view_shape f b sh = drop f (take (length sh - b) sh)"

definition index_error :: "nat \<Rightarrow> nat \<Rightarrow> nat list \<Rightarrow> bool" where
  "index_error f b sh \<longleftrightarrow>
     f + b > length sh \<or> 0 \<in> set (take f sh @ drop (length sh - b) sh)"

definition getitem :: "nat \<Rightarrow> nat \<Rightarrow> 'a ndarray \<Rightarrow> error + 'a ndarray" where
  "getitem f b a =
     (let sh = shape a in
      if index_error f b sh then Inl IndexError
      else Inr \<lparr> shape = view_shape f b sh,
                 data = region sh (map (\<lambda>_. 0) sh)
                          (replicate f 1 @ view_shape f b sh @ replicate b 1) (data a) \<rparr>)"

fun unravel :: "nat list \<Rightarrow> nat \<Rightarrow> nat list" where
  "unravel [] i = []"
| "unravel (d # ds) i = (i div prod_list ds) # unravel ds (i mod prod_list ds)"

definition ravel :: "nat list \<Rightarrow> nat list \<Rightarrow> nat" where
  "ravel sh idx = foldl (\<lambda>acc (d, j). acc * d + j) 0 (zip sh idx)"

text \<open>
  numpy's rule for assigning \<open>src\<close> to a view of shape \<open>tgt\<close>: leading axes of extent 1
  of the source do not count; the remaining axes are aligned at the right and each is of
  extent 1 or of the extent of the view.
\<close>

definition broadcastable :: "nat list \<Rightarrow> nat list \<Rightarrow> bool" where
  "broadcastable src tgt =
     (let s = dropWhile (\<lambda>d. d = 1) src
      in length s \<le> length tgt
         \<and> list_all2 (\<lambda>d t. d = 1 \<or> d = t) s (drop (length tgt - length s) tgt))"

definition src_offset :: "nat list \<Rightarrow> nat list \<Rightarrow> nat" where
  "src_offset s v =
     ravel s (map2 (\<lambda>d j. if d = 1 then 0 else j) s (drop (length v - length s) v))"

definition setitem :: "nat \<Rightarrow> nat \<Rightarrow> 'a ndarray \<Rightarrow> 'a ndarray \<Rightarrow> error + 'a ndarray" where
  "setitem f b tgt src =
     (let sh = shape tgt; n = length sh in
      if index_error f b sh then Inl IndexError
      else if \<not> broadcastable (shape src) (view_shape f b sh) then Inl ValueError
      else Inr (tgt\<lparr> data :=
             map (\<lambda>i. let idx = unravel sh i in
                       if (\<forall>j \<in> set (take f idx @ drop (n - b) idx). j = 0)
                       then data src ! src_offset (dropWhile (\<lambda>d. d = 1) (shape src))
                                         (view_shape f b idx)
                       else data tgt ! i)
                 [0..<length (data tgt)] \<rparr>))"

definition squeeze :: "'a ndarray \<Rightarrow> 'a ndarray" where
  "squeeze a = a\<lparr> shape := filter (\<lambda>d. d \<noteq> 1) (shape a) \<rparr>"

subsection \<open>Slot metadata and calls into the worker pool\<close>

record axisinfo =
  key :: string
  isSpatial :: bool

record meta =
  axistags :: "axisinfo list"
  meta_shape :: "nat list"

definition getAxisKeys :: "meta \<Rightarrow> string list" where
  "getAxisKeys m = map key (axistags m)"

definition getTaggedShape :: "meta \<Rightarrow> (string \<times> nat) list" where
  "getTaggedShape m = zip (getAxisKeys m) (meta_shape m)"

definition py_nth :: "'a list \<Rightarrow> nat \<Rightarrow> error + 'a" where
  "py_nth xs i = (if i < length xs then Inr (xs ! i) else Inl IndexError)"

text \<open>
  The calls an operator makes into the block-parallel routines, with the worker count it
  passes (\<open>watershedsNew\<close> takes none).
\<close>

datatype call =
  Call_parallel_filter string int "nat option"
  | Call_watershed_and_agglomerate int
  | Call_watershedsNew

fun max_workers :: "call \<Rightarrow> int option" where
  "max_workers (Call_parallel_filter name w channel) = Some w"
| "max_workers (Call_watershed_and_agglomerate w) = Some w"
| "max_workers Call_watershedsNew = None"

subsection \<open>OpFilter\<close>

definition HESSIAN_BRIGHT :: int where "HESSIAN_BRIGHT = 0"
definition HESSIAN_DARK :: int where "HESSIAN_DARK = 1"
definition STEP_EDGES :: int where "STEP_EDGES = 2"
definition RAW :: int where "RAW = 3"
definition RAW_INVERTED :: int where "RAW_INVERTED = 4"

definition FILTER_NAMES :: "int \<rightharpoonup> string" where
  "FILTER_NAMES =
     map_of [(0, ''hessianOfGaussianEigenvalues''),
             (1, ''hessianOfGaussianEigenvalues''),
             (2, ''gaussianGradientMagnitude''),
             (3, ''gaussianSmoothing''),
             (4, ''gaussianSmoothing'')]"

text \<open>The assertions at the head of \<^verbatim>\<open>OpFilter.execute\<close>, in the order of the source.\<close>

definition OpFilter_asserts :: "meta \<Rightarrow> error + unit" where
  "OpFilter_asserts m =
     (let ax = axistags m; sh = meta_shape m in
      if length ax \<noteq> 5 then Inl AssertionError
      else if key (ax ! 0) \<noteq> ''t'' then Inl AssertionError
      else (case py_nth sh 0 of
              Inl e \<Rightarrow> Inl e
            | Inr d0 \<Rightarrow>
                if d0 \<noteq> 1 then Inl AssertionError
                else if \<not> list_all (\<lambda>i. isSpatial (ax ! i)) [1..<4] then Inl AssertionError
                else if key (ax ! 4) \<noteq> ''c'' then Inl AssertionError
                else (case py_nth sh 4 of
                        Inl e \<Rightarrow> Inl e
                      | Inr d4 \<Rightarrow> if d4 \<noteq> 1 then Inl AssertionError else Inr ())))"

type_synonym filter_routine =
  "string \<Rightarrow> fl ndarray \<Rightarrow> real \<Rightarrow> int \<Rightarrow> nat option \<Rightarrow> error + fl ndarray"

text \<open>
  The steps of the timed block of \<^verbatim>\<open>OpFilter.execute\<close> on the three-dimensional volume
  \<open>fvol\<close>: a volume whose last extent is 1 is filtered as a two-dimensional one
  (\<^verbatim>\<open>fvol[:, :, 0]\<close> keeps all elements), and the input of \<open>RAW_INVERTED\<close> is negated.
\<close>

definition flat_to_2d :: "fl ndarray \<Rightarrow> fl ndarray" where
  "flat_to_2d fvol = (if shape fvol ! 2 = 1 then fvol\<lparr> shape := take 2 (shape fvol) \<rparr> else fvol)"

definition filter_input :: "int \<Rightarrow> fl ndarray \<Rightarrow> fl ndarray" where
  "filter_input volume_filter fvol =
     (let fvol1 = flat_to_2d fvol in
      if volume_filter = RAW_INVERTED then fvol1\<lparr> data := map fneg (data fvol1) \<rparr> else fvol1)"

definition channel_of :: "int \<Rightarrow> fl ndarray \<Rightarrow> nat option" where
  "channel_of volume_filter fvol =
     (if volume_filter = HESSIAN_BRIGHT then Some (ndim fvol - 1)
      else if volume_filter = HESSIAN_DARK then Some 0
      else None)"

text \<open>
  The timed block up to the response that is written to the result. \<open>num_workers\<close> is
  what the thread pool reports, \<open>parallel_filter\<close> the routine of carvingTools. The
  outcome comes with the number of dimensions the filter ran on and with the calls made.
\<close>

definition OpFilter_response ::
  "filter_routine \<Rightarrow> int \<Rightarrow> string \<Rightarrow> real \<Rightarrow> int \<Rightarrow> fl ndarray
     \<Rightarrow> (error + fl ndarray \<times> nat) \<times> call list" where
  "OpFilter_response parallel_filter volume_filter filter_name sigma num_workers fvol0 =
     (if length (shape fvol0) \<le> 2 then (Inl IndexError, [])
      else
     (let fvol = filter_input volume_filter fvol0;
          channel = channel_of volume_filter fvol;
          workers = max 1 num_workers;
          calls = [Call_parallel_filter filter_name workers channel]
      in (case parallel_filter filter_name fvol sigma workers channel of
            Inl e \<Rightarrow> (Inl e, calls)
          | Inr response \<Rightarrow>
              if volume_filter = HESSIAN_BRIGHT
              then (case numpy_max (data response) of
                      Inl e \<Rightarrow> (Inl e, calls)
                    | Inr m \<Rightarrow>
                        (Inr (response\<lparr> data := map (\<lambda>x. fsub m x) (data response) \<rparr>,
                              ndim fvol), calls))
              else (Inr (response, ndim fvol), calls))))"

text \<open>
  \<^verbatim>\<open>OpFilter.execute\<close>: \<open>Input\<close> is the input slot with its metadata \<open>m\<close>, \<open>result\<close> the
  five-dimensional result buffer. The volume is converted to single precision before
  the timed block.
\<close>

definition OpFilter_execute ::
  "meta \<Rightarrow> fl slot \<Rightarrow> real \<Rightarrow> int \<Rightarrow> int \<Rightarrow> filter_routine \<Rightarrow> fl ndarray
     \<Rightarrow> (error + fl ndarray) \<times> call list" where
  "OpFilter_execute m Input sigma volume_filter num_workers parallel_filter result =
     (case OpFilter_asserts m of
        Inl e \<Rightarrow> (Inl e, [])
      | Inr _ \<Rightarrow>
     (case Input (roiFromShape (meta_shape m)) of
        Inl e \<Rightarrow> (Inl e, [])
      | Inr volume5d \<Rightarrow>
     (case getitem 1 1 volume5d of
        Inl e \<Rightarrow> (Inl e, [])
      | Inr volume \<Rightarrow>
     (case FILTER_NAMES volume_filter of
        None \<Rightarrow> (Inl KeyError, [])
      | Some filter_name \<Rightarrow>
     (case OpFilter_response parallel_filter volume_filter filter_name sigma num_workers
             (volume\<lparr> data := map to_float32 (data volume) \<rparr>) of
        (Inl e, calls) \<Rightarrow> (Inl e, calls)
      | (Inr (response, fvol_ndim), calls) \<Rightarrow>
          (if fvol_ndim = 2 then setitem 1 2 result response
           else setitem 1 1 result response, calls))))))"

text \<open>
  Modelled from the spec: \<^verbatim>\<open>parallel_filter\<close> of carvingTools, whose code is not in the
  file. The underlying operator \<open>vigra_filter\<close> yields the channels of its response; with
  a \<open>return_channel\<close> only that channel is kept, without one the single channel of a
  one-channel operator is the response. The worker count decides how the blocks are
  scheduled, not the values.
\<close>

definition parallel_filter_of ::
  "(string \<Rightarrow> fl ndarray \<Rightarrow> real \<Rightarrow> fl ndarray list) \<Rightarrow> filter_routine" where
  "parallel_filter_of vigra_filter filter_name vol sigma workers channel =
     (let channels = vigra_filter filter_name vol sigma in
      case channel of
        Some c \<Rightarrow> py_nth channels c
      | None \<Rightarrow>
          (case channels of
             [response] \<Rightarrow> Inr response
           | _ \<Rightarrow> Inr \<lparr> shape = shape vol @ [length channels],
                        data = concat (transpose (map data channels)) \<rparr>))"

subsection \<open>OpSimpleBlockwiseWatershed\<close>

type_synonym agglomerating_watershed =
  "fl ndarray \<Rightarrow> int \<Rightarrow> real \<Rightarrow> real \<Rightarrow> error + nat ndarray \<times> nat"

type_synonym plain_watershed = "fl ndarray \<Rightarrow> error + nat ndarray \<times> nat"

text \<open>
  The output is of type \<^verbatim>\<open>uint32\<close>: labels written into the result buffer are taken
  modulo \<open>2 ^ 32\<close>.
\<close>

definition as_uint32 :: "nat ndarray \<Rightarrow> 32 word ndarray" where
  "as_uint32 a = \<lparr> shape = shape a, data = map of_nat (data a) \<rparr>"

text \<open>
  \<^verbatim>\<open>OpSimpleBlockwiseWatershed.execute\<close>. The output has the metadata \<open>m\<close> of the input
  (only the element type differs). \<open>watershed_and_agglomerate\<close> is the routine of
  carvingTools and \<open>watershedsNew\<close> the one of vigra; each yields the label array and the
  largest label, or raises. \<open>result\<close> is the result buffer, \<open>squeezed\<close> the source's
  \<^verbatim>\<open>input_\<close>, and \<open>back\<close> tells \<^verbatim>\<open>numpy.s_[0, ..., 0]\<close> from \<^verbatim>\<open>numpy.s_[0, ..., 0, 0]\<close>.
\<close>

definition OpSimpleBlockwiseWatershed_execute ::
  "meta \<Rightarrow> fl slot \<Rightarrow> int \<Rightarrow> real \<Rightarrow> real \<Rightarrow> int
     \<Rightarrow> agglomerating_watershed \<Rightarrow> plain_watershed \<Rightarrow> roi \<Rightarrow> 32 word ndarray
     \<Rightarrow> (error + 32 word ndarray) \<times> call list" where
  "OpSimpleBlockwiseWatershed_execute m Input doAgglo sizeRegularizer reduceTo num_workers
       watershed_and_agglomerate watershedsNew r result =
     (if map2 (\<lambda>b a. int b - int a) (stop r) (start r) \<noteq> map int (meta_shape m)
        then (Inl ValueError, [])
      else if getAxisKeys m \<noteq> [''t'', ''x'', ''y'', ''z'', ''c''] then (Inl ValueError, [])
      else
        (case map_of (getTaggedShape m) ''z'' of
           None \<Rightarrow> (Inl KeyError, [])
         | Some z \<Rightarrow>
        (let back = (if z > 1 then 1 else 2) in
         case Input r of
           Inl e \<Rightarrow> (Inl e, [])
         | Inr input_read \<Rightarrow>
        (let squeezed = squeeze input_read in
         if ndim squeezed \<notin> {2, 3} then (Inl ValueError, [])
         else if doAgglo \<noteq> 0 then
           (let workers = max 1 num_workers;
                calls = [Call_watershed_and_agglomerate workers] in
            case watershed_and_agglomerate squeezed workers sizeRegularizer reduceTo of
              Inl e \<Rightarrow> (Inl e, calls)
            | Inr (labels, max_id) \<Rightarrow> (setitem 1 back result (as_uint32 labels), calls))
         else
           (case watershedsNew squeezed of
              Inl e \<Rightarrow> (Inl e, [Call_watershedsNew])
            | Inr (labels, max_id) \<Rightarrow>
                (setitem 1 back result (as_uint32 labels), [Call_watershedsNew]))))))"

subsection \<open>Canonical metadata and sample collaborators\<close>

text \<open>The metadata of a volume with the axes t, x, y, z, c and a given shape.\<close>

definition txyzc :: "nat list \<Rightarrow> meta" where
  "txyzc sh =
     \<lparr> axistags = [\<lparr> key = ''t'', isSpatial = False \<rparr>, \<lparr> key = ''x'', isSpatial = True \<rparr>,
                   \<lparr> key = ''y'', isSpatial = True \<rparr>, \<lparr> key = ''z'', isSpatial = True \<rparr>,
                   \<lparr> key = ''c'', isSpatial = False \<rparr>],
       meta_shape = sh \<rparr>"

definition filled :: "nat list \<Rightarrow> 'a \<Rightarrow> 'a ndarray" where
  "filled sh v = \<lparr> shape = sh, data = replicate (prod_list sh) v \<rparr>"

text \<open>A watershed that puts every element into region 1, on an array of the input's shape.\<close>

definition one_region :: plain_watershed where
  "one_region a = Inr (\<lparr> shape = shape a, data = map (\<lambda>_. 1) (data a) \<rparr>, 1)"

definition one_region_agglomerated :: agglomerating_watershed where
  "one_region_agglomerated a workers size_regularizer reduce_to = one_region a"

text \<open>
  A stand-in for the vigra operators: the eigenvalue operator yields as many channels as
  the volume has dimensions (channel \<open>k\<close> is the volume plus \<open>k\<close>), the others yield the
  volume as their one channel.
\<close>

definition sample_filter :: "string \<Rightarrow> fl ndarray \<Rightarrow> real \<Rightarrow> fl ndarray list" where
  "sample_filter filter_name vol sigma =
     (if filter_name = ''hessianOfGaussianEigenvalues''
      then map (\<lambda>k. vol\<lparr> data := map (\<lambda>x. fadd x (Fin (real k))) (data vol) \<rparr>) [0..<ndim vol]
      else [vol])"

text \<open>
  Routines that come to nothing without a worker: with a worker count below 1 they fail,
  otherwise they are the routine they wrap.
\<close>

definition needs_a_worker :: "filter_routine \<Rightarrow> filter_routine" where
  "needs_a_worker routine filter_name vol sigma workers channel =
     (if workers < 1 then Inl (Failure ''no worker'')
      else routine filter_name vol sigma workers channel)"

definition agglomerate_needs_a_worker :: "agglomerating_watershed \<Rightarrow> agglomerating_watershed" where
  "agglomerate_needs_a_worker routine vol workers size_regularizer reduce_to =
     (if workers < 1 then Inl (Failure ''no worker'')
      else routine vol workers size_regularizer reduce_to)"

section \<open>Properties of the orchestrator\<close>

lemma execute_clean:
  assumes "\<not> dirty s" and "elem0 (store s) (cachedResult s) \<noteq> None"
  shows "execute PreprocessedData vals p r s = (Inr (cachedResult s), [], s)"
  using assms by (simp add: execute_def)

lemma getResults_clean:
  assumes "\<not> dirty s" and "elem0 (store s) (cachedResult s) \<noteq> None"
  shows "getResults vals p rs s = (replicate (length rs) (Inr (cachedResult s)), [], s)"
  using assms by (induction rs) (simp_all add: execute_clean)

lemma execute_build:
  assumes "dirty s \<or> elem0 (store s) (cachedResult s) = None"
  shows "\<exists>s1. execute PreprocessedData vals (Inr m) r s
           = (Inr (Buffer r), [RequestMst, SetDirtyPreprocessedData], s1)
         \<and> \<not> dirty s1 \<and> cachedResult s1 = Buffer r
         \<and> elem0 (store s1) (cachedResult s1) \<noteq> None"
  using assms by (auto simp add: execute_def)

lemma getResults_failing:
  assumes "dirty s"
  shows "getResults vals (Inl e) rs s
           = (replicate (length rs) (Inl e), replicate (length rs) RequestMst, s)"
  using assms by (induction rs) (simp_all add: execute_def)

lemma count_list_replicate_same: "count_list (replicate n x) x = n"
  by (induction n) simp_all

text \<open>
  C2, as the code has it. While the operator is not dirty and element 0 of its cached
  result is set, a request returns the cached result object itself, asks the chain for
  nothing and changes nothing. For consecutive requests with nothing changed in between
  and a chain that delivers a segmentor, the chain is asked at most once, exactly once
  when the requests follow a change notification, and every request returns the same
  object as the first one. With a chain that raises, a dirty operator asks the chain
  again on every request.
\<close>

theorem getResult_memoized:
  "(\<not> dirty s \<and> elem0 (store s) (cachedResult s) \<noteq> None \<longrightarrow>
      execute PreprocessedData vals p r s = (Inr (cachedResult s), [], s)
      \<and> getResults vals p rs s = (replicate (length rs) (Inr (cachedResult s)), [], s))
   \<and> count_list (events_of (getResults vals (Inr m) rs s)) RequestMst \<le> 1
   \<and> count_list (events_of (getResults vals (Inr m) (r # rs) (propagateDirty slot s)))
         RequestMst = 1
   \<and> outcome_of (getResults vals (Inr m) (r # rs) s)
       = replicate (Suc (length rs)) (outcome_of (execute PreprocessedData vals (Inr m) r s))
   \<and> (dirty s \<longrightarrow>
        count_list (events_of (getResults vals (Inl e) rs s)) RequestMst = length rs)"
proof -
  have failing: "count_list (events_of (getResults vals (Inl e) rs s)) RequestMst = length rs"
    if "dirty s"
    using getResults_failing [OF that, of vals e rs]
    by (simp add: events_of_def count_list_replicate_same)
  have once: "count_list (events_of (getResults vals (Inr m) (r # rs) (propagateDirty slot s)))
         RequestMst = 1"
  proof -
    have "dirty (propagateDirty slot s)" by (simp add: propagateDirty_def)
    then have "dirty (propagateDirty slot s)
        \<or> elem0 (store (propagateDirty slot s)) (cachedResult (propagateDirty slot s)) = None"
      by blast
    from execute_build [OF this, of vals m r] obtain s1 where
      ex: "execute PreprocessedData vals (Inr m) r (propagateDirty slot s)
             = (Inr (Buffer r), [RequestMst, SetDirtyPreprocessedData], s1)"
      and cl: "\<not> dirty s1" "elem0 (store s1) (cachedResult s1) \<noteq> None"
      by blast
    show ?thesis
      using ex getResults_clean [OF cl] by (simp add: events_of_def)
  qed
  have count: "count_list (events_of (getResults vals (Inr m) rs' s')) RequestMst \<le> 1"
    for rs' and s' :: "'a opPreprocessing"
  proof (cases rs')
    case Nil
    then show ?thesis by (simp add: events_of_def)
  next
    case (Cons r' rs'')
    show ?thesis
    proof (cases "\<not> dirty s' \<and> elem0 (store s') (cachedResult s') \<noteq> None")
      case True
      then show ?thesis by (simp add: getResults_clean events_of_def)
    next
      case False
      then have "dirty s' \<or> elem0 (store s') (cachedResult s') = None" by blast
      from execute_build [OF this, of vals m r'] obtain s1 where
        ex: "execute PreprocessedData vals (Inr m) r' s'
               = (Inr (Buffer r'), [RequestMst, SetDirtyPreprocessedData], s1)"
        and cl: "\<not> dirty s1" "elem0 (store s1) (cachedResult s1) \<noteq> None"
        by blast
      show ?thesis
        using Cons ex getResults_clean [OF cl] by (simp add: events_of_def)
    qed
  qed
  have same: "outcome_of (getResults vals (Inr m) (r # rs) s)
       = replicate (Suc (length rs)) (outcome_of (execute PreprocessedData vals (Inr m) r s))"
  proof (cases "\<not> dirty s \<and> elem0 (store s) (cachedResult s) \<noteq> None")
    case True
    then show ?thesis
      using getResults_clean [of s vals "Inr m" "r # rs"] execute_clean [of s vals "Inr m" r]
      by (simp add: outcome_of_def)
  next
    case False
    then have "dirty s \<or> elem0 (store s) (cachedResult s) = None" by blast
    from execute_build [OF this, of vals m r] obtain s1 where
      ex: "execute PreprocessedData vals (Inr m) r s
             = (Inr (Buffer r), [RequestMst, SetDirtyPreprocessedData], s1)"
      and cl: "\<not> dirty s1" "elem0 (store s1) (cachedResult s1) \<noteq> None"
      and cr: "cachedResult s1 = Buffer r"
      by blast
    show ?thesis
      using ex cr getResults_clean [OF cl] by (simp add: outcome_of_def)
  qed
  show ?thesis
    using count once same failing by (simp add: execute_clean getResults_clean)
qed

theorem getResult_memoized_witness:
  "execute PreprocessedData
     \<lparr> Sigma_value = 1.6, Filter_value = 0, DoAgglo_value = 1,
       SizeRegularizer_value = 0.5, ReduceTo_value = 0.2 \<rparr>
     (Inl (Failure ''unused'')) 4
     ((init (\<lambda>_. None)) \<lparr> cachedResult := Buffer 3, store := (\<lambda>_. None)(3 := Some (7::nat)) \<rparr>)
   = (Inr (Buffer 3), [],
      (init (\<lambda>_. None)) \<lparr> cachedResult := Buffer 3, store := (\<lambda>_. None)(3 := Some 7) \<rparr>)
   \<and> outcome_of (getResults
       \<lparr> Sigma_value = 1.6, Filter_value = 0, DoAgglo_value = 1,
         SizeRegularizer_value = 0.5, ReduceTo_value = 0.2 \<rparr>
       (Inr (7::nat)) [4, 5, 6] (propagateDirty Sigma (init (\<lambda>_. None))))
     = [Inr (Buffer 4), Inr (Buffer 4), Inr (Buffer 4)]
   \<and> events_of (getResults
       \<lparr> Sigma_value = 1.6, Filter_value = 0, DoAgglo_value = 1,
         SizeRegularizer_value = 0.5, ReduceTo_value = 0.2 \<rparr>
       (Inr (7::nat)) [4, 5, 6] (propagateDirty Sigma (init (\<lambda>_. None))))
     = [RequestMst, SetDirtyPreprocessedData]"
proof -
  have ev: "events_of (getResults
       \<lparr> Sigma_value = 1.6, Filter_value = 0, DoAgglo_value = 1,
         SizeRegularizer_value = 0.5, ReduceTo_value = 0.2 \<rparr>
       (Inr (7::nat)) [4, 5, 6] (propagateDirty Sigma (init (\<lambda>_. None))))
     = [RequestMst, SetDirtyPreprocessedData]"
    by (simp add: execute_def propagateDirty_def init_def events_of_def)
  have first: "outcome_of (execute PreprocessedData
       \<lparr> Sigma_value = 1.6, Filter_value = 0, DoAgglo_value = 1,
         SizeRegularizer_value = 0.5, ReduceTo_value = 0.2 \<rparr>
       (Inr (7::nat)) 4 (propagateDirty Sigma (init (\<lambda>_. None)))) = Inr (Buffer 4)"
    by (simp add: execute_def propagateDirty_def init_def outcome_of_def)
  have clean: "\<not> dirty ((init (\<lambda>_. None)) \<lparr> cachedResult := Buffer 3,
                                   store := (\<lambda>_. None)(3 := Some (7::nat)) \<rparr>)
      \<and> elem0 (store ((init (\<lambda>_. None)) \<lparr> cachedResult := Buffer 3,
                                   store := (\<lambda>_. None)(3 := Some (7::nat)) \<rparr>))
           (cachedResult ((init (\<lambda>_. None)) \<lparr> cachedResult := Buffer 3,
                                   store := (\<lambda>_. None)(3 := Some (7::nat)) \<rparr>)) \<noteq> None"
    by (simp add: init_def)
  have c1: "execute PreprocessedData
     \<lparr> Sigma_value = 1.6, Filter_value = 0, DoAgglo_value = 1,
       SizeRegularizer_value = 0.5, ReduceTo_value = 0.2 \<rparr>
     (Inl (Failure ''unused'')) 4
     ((init (\<lambda>_. None)) \<lparr> cachedResult := Buffer 3, store := (\<lambda>_. None)(3 := Some (7::nat)) \<rparr>)
   = (Inr (cachedResult ((init (\<lambda>_. None)) \<lparr> cachedResult := Buffer 3,
                                   store := (\<lambda>_. None)(3 := Some (7::nat)) \<rparr>)), [],
      (init (\<lambda>_. None)) \<lparr> cachedResult := Buffer 3, store := (\<lambda>_. None)(3 := Some 7) \<rparr>)"
    using clean
      getResult_memoized
        [of "(init (\<lambda>_. None)) \<lparr> cachedResult := Buffer 3,
                                   store := (\<lambda>_. None)(3 := Some (7::nat)) \<rparr>"
            "\<lparr> Sigma_value = 1.6, Filter_value = 0, DoAgglo_value = 1,
               SizeRegularizer_value = 0.5, ReduceTo_value = 0.2 \<rparr>"
            "Inl (Failure ''unused'')" 4 "[]" 7 Sigma]
    by blast
  have c2: "outcome_of (getResults
       \<lparr> Sigma_value = 1.6, Filter_value = 0, DoAgglo_value = 1,
         SizeRegularizer_value = 0.5, ReduceTo_value = 0.2 \<rparr>
       (Inr (7::nat)) (4 # [5, 6]) (propagateDirty Sigma (init (\<lambda>_. None))))
     = replicate (Suc (length [5, 6::nat])) (outcome_of (execute PreprocessedData
       \<lparr> Sigma_value = 1.6, Filter_value = 0, DoAgglo_value = 1,
         SizeRegularizer_value = 0.5, ReduceTo_value = 0.2 \<rparr>
       (Inr (7::nat)) 4 (propagateDirty Sigma (init (\<lambda>_. None)))))"
    using getResult_memoized
        [of "propagateDirty Sigma (init (\<lambda>_. None))"
            "\<lparr> Sigma_value = 1.6, Filter_value = 0, DoAgglo_value = 1,
               SizeRegularizer_value = 0.5, ReduceTo_value = 0.2 \<rparr>"
            "Inl (Failure ''unused'')" 4 "[5, 6]" "7::nat" Sigma]
    by blast
  have c2': "outcome_of (getResults
       \<lparr> Sigma_value = 1.6, Filter_value = 0, DoAgglo_value = 1,
         SizeRegularizer_value = 0.5, ReduceTo_value = 0.2 \<rparr>
       (Inr (7::nat)) [4, 5, 6] (propagateDirty Sigma (init (\<lambda>_. None))))
     = [Inr (Buffer 4), Inr (Buffer 4), Inr (Buffer 4)]"
    unfolding c2 first by (simp add: numeral_3_eq_3)
  have c1': "execute PreprocessedData
     \<lparr> Sigma_value = 1.6, Filter_value = 0, DoAgglo_value = 1,
       SizeRegularizer_value = 0.5, ReduceTo_value = 0.2 \<rparr>
     (Inl (Failure ''unused'')) 4
     ((init (\<lambda>_. None)) \<lparr> cachedResult := Buffer 3, store := (\<lambda>_. None)(3 := Some (7::nat)) \<rparr>)
   = (Inr (Buffer 3), [],
      (init (\<lambda>_. None)) \<lparr> cachedResult := Buffer 3, store := (\<lambda>_. None)(3 := Some 7) \<rparr>)"
    using c1 by simp
  show ?thesis
    by (intro conjI) (rule c1', rule c2', rule ev)
qed

text \<open>
  C2, as the specification words it, fails when the chain raises: after a change
  notification two consecutive requests with nothing changed in between ask the chain
  twice.
\<close>

theorem failed_chain_is_asked_again_counterexample:
  "count_list (events_of (getResults
       \<lparr> Sigma_value = 1.6, Filter_value = 0, DoAgglo_value = 1,
         SizeRegularizer_value = 0.5, ReduceTo_value = 0.2 \<rparr>
       (Inl (Failure ''watershed'') :: error + nat) [4, 5]
       (propagateDirty Sigma (init (\<lambda>_. None))))) RequestMst = 2"
  by (simp add: execute_def propagateDirty_def init_def events_of_def)

text \<open>
  C3. Every change notification sets the dirty flag. A notification from \<open>InputData\<close>
  also sets the five cached parameter fields to \<open>None\<close> and replaces the cached result by
  a list holding \<open>None\<close>; a notification from any other slot changes the dirty flag and
  nothing else.
\<close>

theorem propagateDirty_effect:
  "dirty (propagateDirty slot s)
   \<and> (slot = InputData \<longrightarrow>
        propagateDirty slot s
          = s\<lparr> cachedSigma := None, cachedFilter := None, cachedDoAgglo := None,
               cachedSizeRegularizer := None, cachedReduceTo := None,
               cachedResult := Placeholder, dirty := True \<rparr>
        \<and> elem0 (store (propagateDirty slot s)) (cachedResult (propagateDirty slot s)) = None)
   \<and> (slot \<noteq> InputData \<longrightarrow> propagateDirty slot s = s\<lparr> dirty := True \<rparr>)"
  by (simp add: propagateDirty_def)

theorem propagateDirty_effect_witness:
  "propagateDirty InputData
     \<lparr> cachedResult = Buffer 3, hasUnsavedData = True, dirty = False, deserialized = False,
       cachedSigma = Some 1.6, cachedFilter = Some 0, cachedDoAgglo = Some 1,
       cachedSizeRegularizer = Some 0.5, cachedReduceTo = Some 0.2,
       store = (\<lambda>_. None)(3 := Some (7::nat)) \<rparr>
   = \<lparr> cachedResult = Placeholder, hasUnsavedData = True, dirty = True, deserialized = False,
       cachedSigma = None, cachedFilter = None, cachedDoAgglo = None,
       cachedSizeRegularizer = None, cachedReduceTo = None,
       store = (\<lambda>_. None)(3 := Some 7) \<rparr>
   \<and> propagateDirty Sigma
     \<lparr> cachedResult = Buffer 3, hasUnsavedData = True, dirty = False, deserialized = False,
       cachedSigma = Some 1.6, cachedFilter = Some 0, cachedDoAgglo = Some 1,
       cachedSizeRegularizer = Some 0.5, cachedReduceTo = Some 0.2,
       store = (\<lambda>_. None)(3 := Some (7::nat)) \<rparr>
   = \<lparr> cachedResult = Buffer 3, hasUnsavedData = True, dirty = True, deserialized = False,
       cachedSigma = Some 1.6, cachedFilter = Some 0, cachedDoAgglo = Some 1,
       cachedSizeRegularizer = Some 0.5, cachedReduceTo = Some 0.2,
       store = (\<lambda>_. None)(3 := Some 7) \<rparr>"
  using propagateDirty_effect
    [of InputData
        "\<lparr> cachedResult = Buffer 3, hasUnsavedData = True, dirty = False, deserialized = False,
           cachedSigma = Some 1.6, cachedFilter = Some 0, cachedDoAgglo = Some 1,
           cachedSizeRegularizer = Some 0.5, cachedReduceTo = Some 0.2,
           store = (\<lambda>_. None)(3 := Some (7::nat)) \<rparr>"]
    propagateDirty_effect
    [of Sigma
        "\<lparr> cachedResult = Buffer 3, hasUnsavedData = True, dirty = False, deserialized = False,
           cachedSigma = Some 1.6, cachedFilter = Some 0, cachedDoAgglo = Some 1,
           cachedSizeRegularizer = Some 0.5, cachedReduceTo = Some 0.2,
           store = (\<lambda>_. None)(3 := Some (7::nat)) \<rparr>"]
  by simp

text \<open>
  C4. A request that raises (the chain failed, or the slot assertion did) leaves the
  operator exactly as it was: cached result, store, cached parameters, unsaved-data flag
  and dirty flag; and it sends no notification on \<open>PreprocessedData\<close>.
\<close>

theorem execute_failure_atomic:
  assumes "outcome_of (execute slot vals p r s) = Inl e"
  shows "state_of (execute slot vals p r s) = s
         \<and> SetDirtyPreprocessedData \<notin> set (events_of (execute slot vals p r s))"
  using assms
  by (auto simp add: execute_def outcome_of_def state_of_def events_of_def
      split: if_splits sum.splits)

theorem execute_failure_atomic_witness:
  "outcome_of (execute PreprocessedData
       \<lparr> Sigma_value = 2, Filter_value = 1, DoAgglo_value = 1,
         SizeRegularizer_value = 0.5, ReduceTo_value = 0.2 \<rparr>
       (Inl (Failure ''watershed'')) 4
       \<lparr> cachedResult = Buffer 3, hasUnsavedData = False, dirty = True, deserialized = False,
         cachedSigma = Some 1.6, cachedFilter = Some 0, cachedDoAgglo = Some 1,
         cachedSizeRegularizer = Some 0.5, cachedReduceTo = Some 0.2,
         store = (\<lambda>_. None)(3 := Some (7::nat)) \<rparr>) = Inl (Failure ''watershed'')
   \<and> state_of (execute PreprocessedData
       \<lparr> Sigma_value = 2, Filter_value = 1, DoAgglo_value = 1,
         SizeRegularizer_value = 0.5, ReduceTo_value = 0.2 \<rparr>
       (Inl (Failure ''watershed'')) 4
       \<lparr> cachedResult = Buffer 3, hasUnsavedData = False, dirty = True, deserialized = False,
         cachedSigma = Some 1.6, cachedFilter = Some 0, cachedDoAgglo = Some 1,
         cachedSizeRegularizer = Some 0.5, cachedReduceTo = Some 0.2,
         store = (\<lambda>_. None)(3 := Some (7::nat)) \<rparr>)
     = \<lparr> cachedResult = Buffer 3, hasUnsavedData = False, dirty = True, deserialized = False,
         cachedSigma = Some 1.6, cachedFilter = Some 0, cachedDoAgglo = Some 1,
         cachedSizeRegularizer = Some 0.5, cachedReduceTo = Some 0.2,
         store = (\<lambda>_. None)(3 := Some 7) \<rparr>"
proof -
  have h: "outcome_of (execute PreprocessedData
       \<lparr> Sigma_value = 2, Filter_value = 1, DoAgglo_value = 1,
         SizeRegularizer_value = 0.5, ReduceTo_value = 0.2 \<rparr>
       (Inl (Failure ''watershed'')) 4
       \<lparr> cachedResult = Buffer 3, hasUnsavedData = False, dirty = True, deserialized = False,
         cachedSigma = Some 1.6, cachedFilter = Some 0, cachedDoAgglo = Some 1,
         cachedSizeRegularizer = Some 0.5, cachedReduceTo = Some 0.2,
         store = (\<lambda>_. None)(3 := Some (7::nat)) \<rparr>) = Inl (Failure ''watershed'')"
    by (simp add: execute_def outcome_of_def)
  show ?thesis
    using h execute_failure_atomic [OF h] by simp
qed

text \<open>
  C10. A request made while the operator is not dirty and element 0 of its cached result
  is set returns the cached result, leaves every field and the store as they were and
  sends no notification. A request that changes the state or sends the notification on
  \<open>PreprocessedData\<close> is one that was made dirty or without a cached result, asked the
  chain, and got a segmentor from it.
\<close>

theorem execute_clean_frame:
  "(\<not> dirty s \<and> elem0 (store s) (cachedResult s) \<noteq> None \<longrightarrow>
      outcome_of (execute PreprocessedData vals p r s) = Inr (cachedResult s)
      \<and> events_of (execute PreprocessedData vals p r s) = []
      \<and> state_of (execute PreprocessedData vals p r s) = s)
   \<and> (state_of (execute slot vals p r s) \<noteq> s
        \<or> SetDirtyPreprocessedData \<in> set (events_of (execute slot vals p r s)) \<longrightarrow>
      slot = PreprocessedData
      \<and> (dirty s \<or> elem0 (store s) (cachedResult s) = None)
      \<and> (\<exists>m. p = Inr m)
      \<and> RequestMst \<in> set (events_of (execute slot vals p r s)))"
  by (auto simp add: execute_def outcome_of_def state_of_def events_of_def
      split: if_splits sum.splits)

theorem execute_clean_frame_witness:
  "events_of (execute PreprocessedData
       \<lparr> Sigma_value = 2, Filter_value = 1, DoAgglo_value = 0,
         SizeRegularizer_value = 0.5, ReduceTo_value = 0.2 \<rparr>
       (Inr 9) 4
       \<lparr> cachedResult = Buffer 3, hasUnsavedData = True, dirty = False, deserialized = False,
         cachedSigma = Some 1.6, cachedFilter = Some 0, cachedDoAgglo = Some 1,
         cachedSizeRegularizer = Some 0.5, cachedReduceTo = Some 0.2,
         store = (\<lambda>_. None)(3 := Some (7::nat)) \<rparr>) = []
   \<and> state_of (execute PreprocessedData
       \<lparr> Sigma_value = 2, Filter_value = 1, DoAgglo_value = 0,
         SizeRegularizer_value = 0.5, ReduceTo_value = 0.2 \<rparr>
       (Inr 9) 4
       \<lparr> cachedResult = Buffer 3, hasUnsavedData = True, dirty = False, deserialized = False,
         cachedSigma = Some 1.6, cachedFilter = Some 0, cachedDoAgglo = Some 1,
         cachedSizeRegularizer = Some 0.5, cachedReduceTo = Some 0.2,
         store = (\<lambda>_. None)(3 := Some (7::nat)) \<rparr>)
     = \<lparr> cachedResult = Buffer 3, hasUnsavedData = True, dirty = False, deserialized = False,
         cachedSigma = Some 1.6, cachedFilter = Some 0, cachedDoAgglo = Some 1,
         cachedSizeRegularizer = Some 0.5, cachedReduceTo = Some 0.2,
         store = (\<lambda>_. None)(3 := Some 7) \<rparr>
   \<and> RequestMst \<in> set (events_of (execute PreprocessedData
       \<lparr> Sigma_value = 2, Filter_value = 1, DoAgglo_value = 0,
         SizeRegularizer_value = 0.5, ReduceTo_value = 0.2 \<rparr>
       (Inr 9) 4
       \<lparr> cachedResult = Buffer 3, hasUnsavedData = True, dirty = True, deserialized = False,
         cachedSigma = Some 1.6, cachedFilter = Some 0, cachedDoAgglo = Some 1,
         cachedSizeRegularizer = Some 0.5, cachedReduceTo = Some 0.2,
         store = (\<lambda>_. None)(3 := Some (7::nat)) \<rparr>))"
proof -
  have mutated: "state_of (execute PreprocessedData
       \<lparr> Sigma_value = 2, Filter_value = 1, DoAgglo_value = 0,
         SizeRegularizer_value = 0.5, ReduceTo_value = 0.2 \<rparr>
       (Inr 9) 4
       \<lparr> cachedResult = Buffer 3, hasUnsavedData = True, dirty = True, deserialized = False,
         cachedSigma = Some 1.6, cachedFilter = Some 0, cachedDoAgglo = Some 1,
         cachedSizeRegularizer = Some 0.5, cachedReduceTo = Some 0.2,
         store = (\<lambda>_. None)(3 := Some (7::nat)) \<rparr>)
     \<noteq> \<lparr> cachedResult = Buffer 3, hasUnsavedData = True, dirty = True, deserialized = False,
         cachedSigma = Some 1.6, cachedFilter = Some 0, cachedDoAgglo = Some 1,
         cachedSizeRegularizer = Some 0.5, cachedReduceTo = Some 0.2,
         store = (\<lambda>_. None)(3 := Some (7::nat)) \<rparr>"
    by (simp add: execute_def state_of_def)
  show ?thesis
    using mutated
      execute_clean_frame
      [of "\<lparr> cachedResult = Buffer 3, hasUnsavedData = True, dirty = False, deserialized = False,
         cachedSigma = Some 1.6, cachedFilter = Some 0, cachedDoAgglo = Some 1,
         cachedSizeRegularizer = Some 0.5, cachedReduceTo = Some 0.2,
         store = (\<lambda>_. None)(3 := Some (7::nat)) \<rparr>"
       "\<lparr> Sigma_value = 2, Filter_value = 1, DoAgglo_value = 0,
         SizeRegularizer_value = 0.5, ReduceTo_value = 0.2 \<rparr>" "Inr 9" 4 PreprocessedData]
      execute_clean_frame
      [of "\<lparr> cachedResult = Buffer 3, hasUnsavedData = True, dirty = True, deserialized = False,
         cachedSigma = Some 1.6, cachedFilter = Some 0, cachedDoAgglo = Some 1,
         cachedSizeRegularizer = Some 0.5, cachedReduceTo = Some 0.2,
         store = (\<lambda>_. None)(3 := Some (7::nat)) \<rparr>"
       "\<lparr> Sigma_value = 2, Filter_value = 1, DoAgglo_value = 0,
         SizeRegularizer_value = 0.5, ReduceTo_value = 0.2 \<rparr>" "Inr 9" 4 PreprocessedData]
    by simp
qed

section \<open>Properties of the graph builder\<close>

lemma fold_updateProgressBar_signals:
  "\<exists>mid. signals (fold updateProgressBar xs a) = signals a @ mid"
proof (induction xs arbitrary: a)
  case Nil
  then show ?case by simp
next
  case (Cons x xs)
  obtain mid where m: "signals (fold updateProgressBar xs (updateProgressBar x a))
      = signals (updateProgressBar x a) @ mid"
    using Cons.IH by blast
  have "\<exists>m0. signals (updateProgressBar x a) = signals a @ m0"
    by (simp add: updateProgressBar_def progressSignal_def)
  then obtain m0 where "signals (updateProgressBar x a) = signals a @ m0" by blast
  with m show ?case by simp
qed

lemma body_signals:
  "\<exists>mid. signals (snd (OpMstSegmentorProvider_body i l ns a)) = signals a @ mid"
proof -
  have "\<exists>mid. signals (fold updateProgressBar xs (a\<lparr>progress := 0\<rparr>)) = signals a @ mid" for xs
    using fold_updateProgressBar_signals [of xs "a\<lparr>progress := 0\<rparr>"] by simp
  then show ?thesis
    by (auto simp add: OpMstSegmentorProvider_body_def Let_def split: sum.splits prod.splits)
qed

lemma body_failure_propagates:
  "snd (ns lv f) = Inl e \<Longrightarrow> fst (OpMstSegmentorProvider_body (Inr f) (Inr lv) ns a) = Inl e"
  by (cases "ns lv f") (simp add: OpMstSegmentorProvider_body_def)

text \<open>
  C6. Whatever the reads and the construction of the graph do, the signals sent by one
  execution are \<open>-1\<close> first and \<open>100\<close> last; when the construction raises, that exception
  is the outcome of the execution, and the \<open>100\<close> has been sent all the same.
\<close>

theorem completion_signal_on_every_exit:
  "(\<exists>mid. signals (snd (OpMstSegmentorProvider_execute slot i l ns a))
            = signals a @ [- 1] @ mid @ [100])
   \<and> (i = Inr f \<and> l = Inr lv \<and> snd (ns lv f) = Inl e \<longrightarrow>
        fst (OpMstSegmentorProvider_execute slot i l ns a) = Inl e)"
proof -
  obtain mid where
    "signals (snd (OpMstSegmentorProvider_body i l ns (progressSignal (- 1) a)))
       = signals (progressSignal (- 1) a) @ mid"
    using body_signals by blast
  then have first: "\<exists>mid. signals (snd (OpMstSegmentorProvider_execute slot i l ns a))
            = signals a @ [- 1] @ mid @ [100]"
    by (cases slot)
       (auto simp add: OpMstSegmentorProvider_execute_def Let_def progressSignal_def
          split: prod.splits)
  have second: "fst (OpMstSegmentorProvider_execute slot (Inr f) (Inr lv) ns a) = Inl e"
    if "snd (ns lv f) = Inl e"
    using that body_failure_propagates [of ns lv f e "progressSignal (- 1) a"]
    by (cases slot)
       (auto simp add: OpMstSegmentorProvider_execute_def Let_def split: prod.splits)
  show ?thesis using first second by blast
qed

theorem completion_signal_on_every_exit_witness:
  "signals (snd (OpMstSegmentorProvider_execute MST (Inr (0::nat)) (Inr (0::nat))
       (\<lambda>l f. ([10, 10.5, 50], (Inl (Failure ''graph'') :: error + (nat, nat) segmentor)))
       \<lparr> progress = 3, signals = [] \<rparr>)) = [- 1, 10, 50, 100]
   \<and> fst (OpMstSegmentorProvider_execute MST (Inr (0::nat)) (Inr (0::nat))
       (\<lambda>l f. ([10, 10.5, 50], (Inl (Failure ''graph'') :: error + (nat, nat) segmentor)))
       \<lparr> progress = 3, signals = [] \<rparr>) = Inl (Failure ''graph'')"
proof -
  have sig: "signals (snd (OpMstSegmentorProvider_execute MST (Inr (0::nat)) (Inr (0::nat))
       (\<lambda>l f. ([10, 10.5, 50], (Inl (Failure ''graph'') :: error + (nat, nat) segmentor)))
       \<lparr> progress = 3, signals = [] \<rparr>)) = [- 1, 10, 50, 100]"
    by (simp add: OpMstSegmentorProvider_execute_def OpMstSegmentorProvider_body_def
        updateProgressBar_def progressSignal_def)
  show ?thesis
    using sig
      completion_signal_on_every_exit
        [of MST "Inr (0::nat)" "Inr (0::nat)"
            "\<lambda>l f. ([10, 10.5, 50], (Inl (Failure ''graph'') :: error + (nat, nat) segmentor))"
            "\<lparr> progress = 3, signals = [] \<rparr>" 0 0 "Failure ''graph''"]
    by simp
qed

section \<open>Properties of the worker count\<close>

lemma OpFilter_response_calls:
  "snd (OpFilter_response pf vf name sigma n fvol) = []
   \<or> (\<exists>ch. snd (OpFilter_response pf vf name sigma n fvol)
              = [Call_parallel_filter name (max 1 n) ch])"
  by (simp add: OpFilter_response_def Let_def split: sum.splits)

lemma OpFilter_execute_calls:
  "snd (OpFilter_execute m Input sigma vf n pf result) = []
   \<or> (\<exists>name ch. snd (OpFilter_execute m Input sigma vf n pf result)
              = [Call_parallel_filter name (max 1 n) ch])"
proof -
  have "snd (case OpFilter_response pf vf name sigma n volume of
               (Inl e, calls) \<Rightarrow> (Inl e, calls)
             | (Inr (response, fvol_ndim), calls) \<Rightarrow>
                 (if fvol_ndim = 2 then setitem 1 2 result response
                  else setitem 1 1 result response, calls))
        = snd (OpFilter_response pf vf name sigma n volume)" for name volume
    by (simp split: prod.splits sum.splits)
  then have "snd (OpFilter_execute m Input sigma vf n pf result) = []
     \<or> (\<exists>name volume. snd (OpFilter_execute m Input sigma vf n pf result)
                = snd (OpFilter_response pf vf name sigma n volume))"
    by (auto simp add: OpFilter_execute_def split: sum.splits option.splits)
  then show ?thesis
    using OpFilter_response_calls [of pf vf _ sigma n] by metis
qed

lemma OpSimpleBlockwiseWatershed_execute_calls:
  "snd (OpSimpleBlockwiseWatershed_execute m Input doAgglo sr rt n wa wn r result)
     \<in> {[], [Call_watershed_and_agglomerate (max 1 n)], [Call_watershedsNew]}"
  by (simp add: OpSimpleBlockwiseWatershed_execute_def Let_def
      split: sum.splits option.splits prod.splits)

lemma OpFilter_response_clamped:
  "OpFilter_response (\<lambda>nm v s w c. pf nm v s (max 1 n) c) vf name sigma n fvol
   = OpFilter_response pf vf name sigma n fvol"
  by (simp add: OpFilter_response_def Let_def)

lemma OpFilter_execute_clamped:
  "OpFilter_execute m Input sigma vf n pf result
   = OpFilter_execute m Input sigma vf n (\<lambda>nm v s w c. pf nm v s (max 1 n) c) result"
  by (simp add: OpFilter_execute_def OpFilter_response_clamped split: sum.splits option.splits)

lemma OpSimpleBlockwiseWatershed_execute_clamped:
  "OpSimpleBlockwiseWatershed_execute m Input doAgglo sr rt n wa wn r result
   = OpSimpleBlockwiseWatershed_execute m Input doAgglo sr rt n
       (\<lambda>a w s t. wa a (max 1 n) s t) wn r result"
  by (simp add: OpSimpleBlockwiseWatershed_execute_def Let_def
      split: sum.splits option.splits)

lemma OpFilter_execute_routine_fails:
  assumes "OpFilter_asserts m = Inr ()"
    and "Input (roiFromShape (meta_shape m)) = Inr volume5d"
    and "getitem 1 1 volume5d = Inr volume"
    and "FILTER_NAMES vf = Some name"
    and "2 < length (shape volume)"
    and "pf name (filter_input vf (volume\<lparr> data := map to_float32 (data volume) \<rparr>)) sigma
            (max 1 n)
            (channel_of vf (filter_input vf (volume\<lparr> data := map to_float32 (data volume) \<rparr>)))
         = Inl e"
  shows "OpFilter_execute m Input sigma vf n pf result
         = (Inl e, [Call_parallel_filter name (max 1 n)
              (channel_of vf (filter_input vf (volume\<lparr> data := map to_float32 (data volume) \<rparr>)))])"
proof -
  have "OpFilter_response pf vf name sigma n (volume\<lparr> data := map to_float32 (data volume) \<rparr>)
        = (Inl e, [Call_parallel_filter name (max 1 n)
              (channel_of vf (filter_input vf (volume\<lparr> data := map to_float32 (data volume) \<rparr>)))])"
    using assms(5,6) by (simp add: OpFilter_response_def Let_def)
  then show ?thesis
    using assms(1-4) by (simp add: OpFilter_execute_def)
qed

lemma OpSimpleBlockwiseWatershed_execute_routine_fails:
  assumes "map2 (\<lambda>b a. int b - int a) (stop r) (start r) = map int (meta_shape m)"
    and "getAxisKeys m = [''t'', ''x'', ''y'', ''z'', ''c'']"
    and "map_of (getTaggedShape m) ''z'' = Some z"
    and "Input r = Inr a" and "ndim (squeeze a) \<in> {2, 3}" and "doAgglo \<noteq> 0"
    and "wa (squeeze a) (max 1 n) sr rt = Inl e"
  shows "OpSimpleBlockwiseWatershed_execute m Input doAgglo sr rt n wa wn r result
         = (Inl e, [Call_watershed_and_agglomerate (max 1 n)])"
  using assms by (auto simp add: OpSimpleBlockwiseWatershed_execute_def Let_def)

text \<open>
  C9. With \<open>n\<close> the worker count that the pool reports, the filter stage and the
  watershed stage consult their block-parallel routine with the worker count
  \<open>max 1 n\<close> and with no other: an execution is the same when the routine is replaced
  by one that is handed \<open>max 1 n\<close> whatever count it is called with, a failure of the
  routine at \<open>max 1 n\<close> workers is the outcome of the execution, and every call with a
  worker count that an execution makes carries \<open>max 1 n\<close>. That count is at least 1
  (\<open>watershedsNew\<close> takes no worker count).
\<close>

theorem worker_count_clamped:
  "OpFilter_execute m Input sigma volume_filter n parallel_filter result
     = OpFilter_execute m Input sigma volume_filter n
         (\<lambda>nm v s w c. parallel_filter nm v s (max 1 n) c) result
   \<and> OpSimpleBlockwiseWatershed_execute m' Input' doAgglo sr rt n wa wn r result'
     = OpSimpleBlockwiseWatershed_execute m' Input' doAgglo sr rt n
         (\<lambda>a w s t. wa a (max 1 n) s t) wn r result'
   \<and> (OpFilter_asserts m = Inr ()
        \<and> Input (roiFromShape (meta_shape m)) = Inr volume5d
        \<and> getitem 1 1 volume5d = Inr volume
        \<and> FILTER_NAMES volume_filter = Some filter_name
        \<and> 2 < length (shape volume)
        \<and> parallel_filter filter_name
             (filter_input volume_filter (volume\<lparr> data := map to_float32 (data volume) \<rparr>))
             sigma (max 1 n)
             (channel_of volume_filter
                (filter_input volume_filter (volume\<lparr> data := map to_float32 (data volume) \<rparr>)))
           = Inl e \<longrightarrow>
      OpFilter_execute m Input sigma volume_filter n parallel_filter result
        = (Inl e, [Call_parallel_filter filter_name (max 1 n)
             (channel_of volume_filter
                (filter_input volume_filter (volume\<lparr> data := map to_float32 (data volume) \<rparr>)))]))
   \<and> (map2 (\<lambda>b a. int b - int a) (stop r) (start r) = map int (meta_shape m')
        \<and> getAxisKeys m' = [''t'', ''x'', ''y'', ''z'', ''c'']
        \<and> map_of (getTaggedShape m') ''z'' = Some z
        \<and> Input' r = Inr a \<and> ndim (squeeze a) \<in> {2, 3} \<and> doAgglo \<noteq> 0
        \<and> wa (squeeze a) (max 1 n) sr rt = Inl e' \<longrightarrow>
      OpSimpleBlockwiseWatershed_execute m' Input' doAgglo sr rt n wa wn r result'
        = (Inl e', [Call_watershed_and_agglomerate (max 1 n)]))
   \<and> (\<forall>c \<in> set (snd (OpFilter_execute m Input sigma volume_filter n parallel_filter result)).
        max_workers c = Some (max 1 n))
   \<and> (\<forall>c \<in> set (snd (OpSimpleBlockwiseWatershed_execute m' Input' doAgglo sr rt n wa wn r
                        result')).
        c = Call_watershedsNew \<or> max_workers c = Some (max 1 n))
   \<and> 1 \<le> max 1 n"
proof -
  have a: "\<forall>c \<in> set (snd (OpFilter_execute m Input sigma volume_filter n parallel_filter result)).
      max_workers c = Some (max 1 n)"
    using OpFilter_execute_calls [of m Input sigma volume_filter n parallel_filter result]
    by auto
  have b: "\<forall>c \<in> set (snd (OpSimpleBlockwiseWatershed_execute m' Input' doAgglo sr rt n wa wn r
                        result')).
      c = Call_watershedsNew \<or> max_workers c = Some (max 1 n)"
    using OpSimpleBlockwiseWatershed_execute_calls [of m' Input' doAgglo sr rt n wa wn r result']
    by auto
  show ?thesis
    using a b
      OpFilter_execute_clamped [of m Input sigma volume_filter n parallel_filter result]
      OpSimpleBlockwiseWatershed_execute_clamped [of m' Input' doAgglo sr rt n wa wn r result']
      OpFilter_execute_routine_fails
        [of m Input volume5d volume volume_filter filter_name parallel_filter sigma n e result]
      OpSimpleBlockwiseWatershed_execute_routine_fails
        [of r m' z Input' a doAgglo wa n sr rt e' wn result']
    by (intro conjI impI) (simp_all only: max.cobounded1, blast+)
qed

theorem worker_count_clamped_witness:
  "OpFilter_execute (txyzc [1,2,2,1,1])
     (array_slot \<lparr> shape = [1,2,2,1,1], data = [Fin 1, Fin 2, Fin 3, Fin 4] \<rparr>)
     1.6 RAW 0
     (\<lambda>nm v s w c. if w = 1 then Inl (Failure ''one worker'')
                    else parallel_filter_of sample_filter nm v s w c)
     (filled [1,2,2,1,1] (Fin 0))
   = (Inl (Failure ''one worker''), [Call_parallel_filter ''gaussianSmoothing'' 1 None])
   \<and> OpSimpleBlockwiseWatershed_execute (txyzc [1,2,2,1,1])
     (array_slot \<lparr> shape = [1,2,2,1,1], data = [Fin 1, Fin 2, Fin 3, Fin 4] \<rparr>)
     1 0.5 0.2 0
     (\<lambda>a w s t. if w = 1 then Inl (Failure ''one worker'') else one_region_agglomerated a w s t)
     one_region (roiFromShape [1,2,2,1,1]) (filled [1,2,2,1,1] 0)
   = (Inl (Failure ''one worker''), [Call_watershed_and_agglomerate 1])
   \<and> OpFilter_execute (txyzc [1,2,2,1,1])
     (array_slot \<lparr> shape = [1,2,2,1,1], data = [Fin 1, Fin 2, Fin 3, Fin 4] \<rparr>)
     1.6 RAW 0 (needs_a_worker (parallel_filter_of sample_filter)) (filled [1,2,2,1,1] (Fin 0))
   = (Inr \<lparr> shape = [1,2,2,1,1], data = [Fin 1, Fin 2, Fin 3, Fin 4] \<rparr>,
      [Call_parallel_filter ''gaussianSmoothing'' 1 None])
   \<and> OpSimpleBlockwiseWatershed_execute (txyzc [1,2,2,1,1])
     (array_slot \<lparr> shape = [1,2,2,1,1], data = [Fin 1, Fin 2, Fin 3, Fin 4] \<rparr>)
     1 0.5 0.2 0 (agglomerate_needs_a_worker one_region_agglomerated) one_region
     (roiFromShape [1,2,2,1,1]) (filled [1,2,2,1,1] 0)
   = (Inr \<lparr> shape = [1,2,2,1,1], data = [1, 1, 1, 1] \<rparr>, [Call_watershed_and_agglomerate 1])"
proof -
  have h1: "OpFilter_asserts (txyzc [1,2,2,1,1]) = Inr ()" by code_simp
  have h2: "array_slot \<lparr> shape = [1,2,2,1,1], data = [Fin 1, Fin 2, Fin 3, Fin 4] \<rparr>
              (roiFromShape (meta_shape (txyzc [1,2,2,1,1])))
            = Inr \<lparr> shape = [1,2,2,1,1], data = [Fin 1, Fin 2, Fin 3, Fin 4] \<rparr>"
    by code_simp
  have h3: "getitem 1 1 \<lparr> shape = [1,2,2,1,1], data = [Fin 1, Fin 2, Fin 3, Fin 4] \<rparr>
            = Inr \<lparr> shape = [2,2,1], data = [Fin 1, Fin 2, Fin 3, Fin 4] \<rparr>"
    by code_simp
  have h4: "FILTER_NAMES RAW = Some ''gaussianSmoothing''" by code_simp
  have h5: "2 < length (shape \<lparr> shape = [2,2,1], data = [Fin 1, Fin 2, Fin 3, Fin 4] \<rparr>)"
    by simp
  have h6: "(\<lambda>nm v s w c. if w = 1 then Inl (Failure ''one worker'')
                    else parallel_filter_of sample_filter nm v s w c)
              ''gaussianSmoothing''
              (filter_input RAW (\<lparr> shape = [2,2,1], data = [Fin 1, Fin 2, Fin 3, Fin 4] \<rparr>
                 \<lparr> data := map to_float32
                     (data \<lparr> shape = [2,2,1], data = [Fin 1, Fin 2, Fin 3, Fin 4] \<rparr>) \<rparr>))
              1.6 (max 1 0)
              (channel_of RAW
                 (filter_input RAW (\<lparr> shape = [2,2,1], data = [Fin 1, Fin 2, Fin 3, Fin 4] \<rparr>
                    \<lparr> data := map to_float32
                        (data \<lparr> shape = [2,2,1], data = [Fin 1, Fin 2, Fin 3, Fin 4] \<rparr>) \<rparr>)))
            = Inl (Failure ''one worker'')"
    by simp
  have ch: "channel_of RAW
              (filter_input RAW (\<lparr> shape = [2,2,1], data = [Fin 1, Fin 2, Fin 3, Fin 4] \<rparr>
                 \<lparr> data := map to_float32
                     (data \<lparr> shape = [2,2,1], data = [Fin 1, Fin 2, Fin 3, Fin 4] \<rparr>) \<rparr>))
            = None"
    by (simp add: channel_of_def RAW_def HESSIAN_BRIGHT_def HESSIAN_DARK_def)
  have g1: "map2 (\<lambda>b a. int b - int a) (stop (roiFromShape [1,2,2,1,1]))
              (start (roiFromShape [1,2,2,1,1])) = map int (meta_shape (txyzc [1,2,2,1,1]))"
    by code_simp
  have g2: "getAxisKeys (txyzc [1,2,2,1,1]) = [''t'', ''x'', ''y'', ''z'', ''c'']" by code_simp
  have g3: "map_of (getTaggedShape (txyzc [1,2,2,1,1])) ''z'' = Some 1" by code_simp
  have g4: "array_slot \<lparr> shape = [1,2,2,1,1], data = [Fin 1, Fin 2, Fin 3, Fin 4] \<rparr>
              (roiFromShape [1,2,2,1,1])
            = Inr \<lparr> shape = [1,2,2,1,1], data = [Fin 1, Fin 2, Fin 3, Fin 4] \<rparr>"
    by code_simp
  have g5: "ndim (squeeze \<lparr> shape = [1,2,2,1,1], data = [Fin 1, Fin 2, Fin 3, Fin 4] \<rparr>)
              \<in> {2, 3}"
    by (simp add: ndim_def squeeze_def)
  have g6: "(1::int) \<noteq> 0" by simp
  have g7: "(\<lambda>a w s t. if w = 1 then Inl (Failure ''one worker'')
                        else one_region_agglomerated a w s t)
              (squeeze \<lparr> shape = [1,2,2,1,1], data = [Fin 1, Fin 2, Fin 3, Fin 4] \<rparr>)
              (max 1 0) 0.5 0.2 = Inl (Failure ''one worker'')"
    by simp
  note inst = worker_count_clamped
      [where m = "txyzc [1,2,2,1,1]"
         and Input = "array_slot \<lparr> shape = [1,2,2,1,1], data = [Fin 1, Fin 2, Fin 3, Fin 4] \<rparr>"
         and sigma = "1.6" and volume_filter = RAW and n = 0
         and parallel_filter = "\<lambda>nm v s w c. if w = 1 then Inl (Failure ''one worker'')
                    else parallel_filter_of sample_filter nm v s w c"
         and result = "filled [1,2,2,1,1] (Fin 0)"
         and volume5d = "\<lparr> shape = [1,2,2,1,1], data = [Fin 1, Fin 2, Fin 3, Fin 4] \<rparr>"
         and volume = "\<lparr> shape = [2,2,1], data = [Fin 1, Fin 2, Fin 3, Fin 4] \<rparr>"
         and filter_name = "''gaussianSmoothing''" and e = "Failure ''one worker''"
         and m' = "txyzc [1,2,2,1,1]"
         and Input' = "array_slot \<lparr> shape = [1,2,2,1,1], data = [Fin 1, Fin 2, Fin 3, Fin 4] \<rparr>"
         and doAgglo = 1 and sr = "0.5" and rt = "0.2"
         and wa = "\<lambda>a w s t. if w = 1 then Inl (Failure ''one worker'')
                        else one_region_agglomerated a w s t"
         and wn = one_region and r = "roiFromShape [1,2,2,1,1]"
         and result' = "filled [1,2,2,1,1] 0" and z = 1
         and a = "\<lparr> shape = [1,2,2,1,1], data = [Fin 1, Fin 2, Fin 3, Fin 4] \<rparr>"
         and e' = "Failure ''one worker''"]
  have c1: "OpFilter_execute (txyzc [1,2,2,1,1])
     (array_slot \<lparr> shape = [1,2,2,1,1], data = [Fin 1, Fin 2, Fin 3, Fin 4] \<rparr>)
     1.6 RAW 0
     (\<lambda>nm v s w c. if w = 1 then Inl (Failure ''one worker'')
                    else parallel_filter_of sample_filter nm v s w c)
     (filled [1,2,2,1,1] (Fin 0))
   = (Inl (Failure ''one worker''), [Call_parallel_filter ''gaussianSmoothing'' (max 1 0)
        (channel_of RAW
              (filter_input RAW (\<lparr> shape = [2,2,1], data = [Fin 1, Fin 2, Fin 3, Fin 4] \<rparr>
                 \<lparr> data := map to_float32
                     (data \<lparr> shape = [2,2,1], data = [Fin 1, Fin 2, Fin 3, Fin 4] \<rparr>) \<rparr>)))])"
    using inst h1 h2 h3 h4 h5 h6 by blast
  have c2: "OpSimpleBlockwiseWatershed_execute (txyzc [1,2,2,1,1])
     (array_slot \<lparr> shape = [1,2,2,1,1], data = [Fin 1, Fin 2, Fin 3, Fin 4] \<rparr>)
     1 0.5 0.2 0
     (\<lambda>a w s t. if w = 1 then Inl (Failure ''one worker'') else one_region_agglomerated a w s t)
     one_region (roiFromShape [1,2,2,1,1]) (filled [1,2,2,1,1] 0)
   = (Inl (Failure ''one worker''), [Call_watershed_and_agglomerate (max 1 0)])"
    using inst g1 g2 g3 g4 g5 g6 g7 by blast
  have c3: "OpFilter_execute (txyzc [1,2,2,1,1])
     (array_slot \<lparr> shape = [1,2,2,1,1], data = [Fin 1, Fin 2, Fin 3, Fin 4] \<rparr>)
     1.6 RAW 0 (needs_a_worker (parallel_filter_of sample_filter)) (filled [1,2,2,1,1] (Fin 0))
   = (Inr \<lparr> shape = [1,2,2,1,1], data = [Fin 1, Fin 2, Fin 3, Fin 4] \<rparr>,
      [Call_parallel_filter ''gaussianSmoothing'' 1 None])"
    by code_simp
  have c4: "OpSimpleBlockwiseWatershed_execute (txyzc [1,2,2,1,1])
     (array_slot \<lparr> shape = [1,2,2,1,1], data = [Fin 1, Fin 2, Fin 3, Fin 4] \<rparr>)
     1 0.5 0.2 0 (agglomerate_needs_a_worker one_region_agglomerated) one_region
     (roiFromShape [1,2,2,1,1]) (filled [1,2,2,1,1] 0)
   = (Inr \<lparr> shape = [1,2,2,1,1], data = [1, 1, 1, 1] \<rparr>, [Call_watershed_and_agglomerate 1])"
    by code_simp
  show ?thesis
    using c1 c2 c3 c4 unfolding ch by simp
qed

section \<open>Properties of single-precision rounding\<close>











lemma round32_zero: "round32 0 = Fin 0"
  by (simp add: round32_def)


lemma fsub_Fin: "fsub (Fin a) (Fin b) = round32 (a - b)"
  by (simp add: fsub_def)

lemma fsub_self: "fsub (Fin a) (Fin a) = Fin 0"
  by (simp add: fsub_Fin round32_zero)

lemma fmul_zero: "fmul (Fin 0) (Fin b) = Fin 0"
  by (simp add: round32_zero)



section \<open>Properties of the normalisation\<close>

lemma fold_fmax2_Fin: "fold fmax2 (map Fin xs) (Fin a) = Fin (fold max xs a)"
  by (induction xs arbitrary: a) simp_all

lemma fold_fmin2_Fin: "fold fmin2 (map Fin xs) (Fin a) = Fin (fold min xs a)"
  by (induction xs arbitrary: a) simp_all

lemma numpy_max_Fin: "xs \<noteq> [] \<Longrightarrow> numpy_max (map Fin xs) = Inr (Fin (Max (set xs)))"
proof (cases xs)
  case Nil
  assume "xs \<noteq> []"
  with Nil show ?thesis by simp
next
  case (Cons a list)
  show ?thesis
    unfolding Cons using Max.set_eq_fold [of a list] by (simp add: fold_fmax2_Fin)
qed

lemma numpy_min_Fin: "xs \<noteq> [] \<Longrightarrow> numpy_min (map Fin xs) = Inr (Fin (Min (set xs)))"
proof (cases xs)
  case Nil
  assume "xs \<noteq> []"
  with Nil show ?thesis by simp
next
  case (Cons a list)
  show ?thesis
    unfolding Cons using Min.set_eq_fold [of a list] by (simp add: fold_fmin2_Fin)
qed

lemma normalize_finite:
  assumes "Input r = Inr a" and "data a = map Fin xs" and "xs \<noteq> []"
  shows "OpNormalize255_execute Input r
         = Inr (a\<lparr> data :=
             map (\<lambda>v. fdiv (fmul (fsub (Fin v) (Fin (Min (set xs)))) (Fin 255))
                          (fsub (Fin (Max (set xs))) (Fin (Min (set xs))))) xs \<rparr>)"
  using assms
  by (simp add: OpNormalize255_execute_def numpy_max_Fin numpy_min_Fin comp_def
      del: fmul.simps fdiv.simps)

lemma normalize_constant:
  assumes "Input r = Inr a" and "data a = replicate (Suc n) (Fin c)"
  shows "OpNormalize255_execute Input r = Inr (a\<lparr> data := replicate (Suc n) NaN \<rparr>)"
proof -
  have d: "data a = map Fin (replicate (Suc n) c)" using assms(2) by simp
  have s: "set (replicate (Suc n) c) = {c}" by (rule set_replicate) simp
  have ne: "replicate (Suc n) c \<noteq> []" by simp
  have cell: "fdiv (fmul (fsub (Fin c) (Fin c)) (Fin 255)) (fsub (Fin c) (Fin c)) = NaN"
    unfolding fsub_self fmul_zero by (simp add: signed_inf_def)
  have "OpNormalize255_execute Input r
        = Inr (a\<lparr> data := map (\<lambda>v. fdiv (fmul (fsub (Fin v) (Fin c)) (Fin 255))
                                       (fsub (Fin c) (Fin c))) (replicate (Suc n) c) \<rparr>)"
    using normalize_finite [of Input r a "replicate (Suc n) c"] assms(1) d ne
    unfolding s by simp
  also have "map (\<lambda>v. fdiv (fmul (fsub (Fin v) (Fin c)) (Fin 255)) (fsub (Fin c) (Fin c)))
               (replicate (Suc n) c) = replicate (Suc n) NaN"
    unfolding map_replicate cell ..
  finally show ?thesis .
qed









text \<open>
  C1. A request of the whole of a constant volume, here of two elements 5, raises
  nothing: it returns an array of that shape whose elements are all not-a-number, since
  the last in-place update divides 0 by \<open>max - min = 0\<close>. The lemma
  \<open>normalize_constant\<close> above shows the same for every constant finite region.
\<close>

theorem constant_volume_yields_nan:
  "OpNormalize255_execute
     (array_slot \<lparr> shape = [1,2,1,1,1], data = [Fin 5, Fin 5] \<rparr>)
     (roiFromShape [1,2,1,1,1])
   = Inr \<lparr> shape = [1,2,1,1,1], data = [NaN, NaN] \<rparr>"
  by code_simp

section \<open>Properties of the watershed stage\<close>

text \<open>
  A request whose extent differs from the shape of the output is refused, and so is an
  input that has neither two nor three axes left after squeezing. Past these checks the
  outcome is that of writing the labels into the view of the result buffer.
\<close>

lemma watershed_rejects_partial_request:
  assumes "map2 (\<lambda>b a. int b - int a) (stop r) (start r) \<noteq> map int (meta_shape m)"
  shows "OpSimpleBlockwiseWatershed_execute m Input doAgglo sr rt n wa wn r result
         = (Inl ValueError, [])"
  using assms by (simp add: OpSimpleBlockwiseWatershed_execute_def)

lemma watershed_rejects_dimensionality:
  assumes "Input r = Inr a" and "ndim (squeeze a) \<noteq> 2" and "ndim (squeeze a) \<noteq> 3"
  shows "\<exists>e. OpSimpleBlockwiseWatershed_execute m Input doAgglo sr rt n wa wn r result
              = (Inl e, [])"
  using assms
  by (simp add: OpSimpleBlockwiseWatershed_execute_def Let_def split: option.splits)

lemma watershed_reaches_write_back:
  assumes "map2 (\<lambda>b a. int b - int a) (stop r) (start r) = map int (meta_shape m)"
    and "getAxisKeys m = [''t'', ''x'', ''y'', ''z'', ''c'']"
    and "map_of (getTaggedShape m) ''z'' = Some z"
    and "Input r = Inr a" and "ndim (squeeze a) \<in> {2, 3}"
    and "wn (squeeze a) = Inr (labels, max_id)"
    and "wa (squeeze a) (max 1 n) sr rt = Inr (labels, max_id)"
  shows "fst (OpSimpleBlockwiseWatershed_execute m Input doAgglo sr rt n wa wn r result)
         = setitem 1 (if z > 1 then 1 else 2) result (as_uint32 labels)"
  using assms
  by (auto simp add: OpSimpleBlockwiseWatershed_execute_def Let_def)

lemma watershed_returns_on_xy_plane:
  "OpSimpleBlockwiseWatershed_execute (txyzc [1,2,2,1,1])
     (array_slot \<lparr> shape = [1,2,2,1,1], data = [Fin 1, Fin 2, Fin 3, Fin 4] \<rparr>)
     0 0.5 0.2 4 one_region_agglomerated one_region (roiFromShape [1,2,2,1,1])
     (filled [1,2,2,1,1] 0)
   = (Inr \<lparr> shape = [1,2,2,1,1], data = [1, 1, 1, 1] \<rparr>, [Call_watershedsNew])"
  by code_simp

text \<open>
  C7. The checks of the extent and of the number of axes hold as specified (lemmas
  \<open>watershed_rejects_partial_request\<close> and \<open>watershed_rejects_dimensionality\<close>), but a
  request that passes them does not always go through. For a volume of shape
  \<open>(1, 2, 1, 2, 1)\<close> with the axes t, x, y, z, c, requested whole, squeezing leaves the two
  axes \<open>(2, 2)\<close>, the watershed runs and returns labels of that shape, and the assignment
  of these labels to the view \<^verbatim>\<open>result[0, ..., 0]\<close> of shape \<open>(2, 1, 2)\<close> raises: the view is
  chosen by the extent of z alone.
\<close>

theorem watershed_raises_on_xz_plane:
  "map2 (\<lambda>b a. int b - int a) (stop (roiFromShape [1,2,1,2,1])) (start (roiFromShape [1,2,1,2,1]))
     = map int (meta_shape (txyzc [1,2,1,2,1]))
   \<and> getAxisKeys (txyzc [1,2,1,2,1]) = [''t'', ''x'', ''y'', ''z'', ''c'']
   \<and> array_slot \<lparr> shape = [1,2,1,2,1], data = [Fin 1, Fin 2, Fin 3, Fin 4] \<rparr>
        (roiFromShape [1,2,1,2,1])
       = Inr \<lparr> shape = [1,2,1,2,1], data = [Fin 1, Fin 2, Fin 3, Fin 4] \<rparr>
   \<and> ndim (squeeze \<lparr> shape = [1,2,1,2,1], data = [Fin 1, Fin 2, Fin 3, Fin 4] \<rparr>) = 2
   \<and> one_region (squeeze \<lparr> shape = [1,2,1,2,1], data = [Fin 1, Fin 2, Fin 3, Fin 4] \<rparr>)
       = Inr (\<lparr> shape = [2, 2], data = [1, 1, 1, 1] \<rparr>, 1)
   \<and> OpSimpleBlockwiseWatershed_execute (txyzc [1,2,1,2,1])
        (array_slot \<lparr> shape = [1,2,1,2,1], data = [Fin 1, Fin 2, Fin 3, Fin 4] \<rparr>)
        0 0.5 0.2 4 one_region_agglomerated one_region (roiFromShape [1,2,1,2,1])
        (filled [1,2,1,2,1] 0)
       = (Inl ValueError, [Call_watershedsNew])"
  by code_simp

section \<open>Properties of the filter stage\<close>

lemma parallel_filter_of_last:
  assumes "vigra_filter name vol sigma = chans" and "length chans = ndim vol" and "chans \<noteq> []"
  shows "parallel_filter_of vigra_filter name vol sigma w (Some (ndim vol - 1)) = Inr (last chans)"
proof -
  have "0 < length chans" using assms(3) by simp
  then have "ndim vol - 1 < length chans" using assms(2) by simp
  then show ?thesis
    using assms by (simp add: parallel_filter_of_def py_nth_def last_conv_nth)
qed

lemma parallel_filter_of_first:
  assumes "vigra_filter name vol sigma = chans" and "chans \<noteq> []"
  shows "parallel_filter_of vigra_filter name vol sigma w (Some 0) = Inr (hd chans)"
  using assms by (simp add: parallel_filter_of_def py_nth_def hd_conv_nth)

text \<open>
  C8. On a three-dimensional volume, with \<open>parallel_filter\<close> keeping the requested channel
  of the underlying operator: for \<open>HESSIAN_BRIGHT\<close> the response is the last of the
  channels (as many as the filtered volume has dimensions), subtracted elementwise from
  its own maximum; for \<open>HESSIAN_DARK\<close> it is the first channel, unchanged. For every kind
  other than \<open>HESSIAN_BRIGHT\<close>, and whatever \<open>parallel_filter\<close> is, the response is what
  the routine returned, unchanged; the kinds other than the two ridge kinds ask for no
  channel.
\<close>

theorem ridge_channel_and_inversion:
  assumes "2 < length (shape fvol)"
  shows
    "(volume_filter = HESSIAN_BRIGHT
        \<and> vigra_filter name (filter_input volume_filter fvol) sigma = chans
        \<and> length chans = ndim (filter_input volume_filter fvol) \<and> chans \<noteq> [] \<longrightarrow>
      fst (OpFilter_response (parallel_filter_of vigra_filter) volume_filter name sigma n fvol)
        = (case numpy_max (data (last chans)) of
             Inl e \<Rightarrow> Inl e
           | Inr m \<Rightarrow> Inr ((last chans)\<lparr> data := map (\<lambda>x. fsub m x) (data (last chans)) \<rparr>,
                          ndim (filter_input volume_filter fvol))))
     \<and> (volume_filter = HESSIAN_DARK
        \<and> vigra_filter name (filter_input volume_filter fvol) sigma = chans \<and> chans \<noteq> [] \<longrightarrow>
      fst (OpFilter_response (parallel_filter_of vigra_filter) volume_filter name sigma n fvol)
        = Inr (hd chans, ndim (filter_input volume_filter fvol)))
     \<and> (volume_filter \<noteq> HESSIAN_BRIGHT \<longrightarrow>
      fst (OpFilter_response parallel_filter volume_filter name sigma n fvol)
        = (case parallel_filter name (filter_input volume_filter fvol) sigma (max 1 n)
                  (channel_of volume_filter (filter_input volume_filter fvol)) of
             Inl e \<Rightarrow> Inl e
           | Inr response \<Rightarrow> Inr (response, ndim (filter_input volume_filter fvol))))
     \<and> (volume_filter \<noteq> HESSIAN_BRIGHT \<and> volume_filter \<noteq> HESSIAN_DARK \<longrightarrow>
      channel_of volume_filter (filter_input volume_filter fvol) = None)"
proof -
  have len: "\<not> length (shape fvol) \<le> 2" using assms by simp
  have bright: "fst (OpFilter_response (parallel_filter_of vigra_filter) HESSIAN_BRIGHT name sigma n fvol)
        = (case numpy_max (data (last chans)) of
             Inl e \<Rightarrow> Inl e
           | Inr m \<Rightarrow> Inr ((last chans)\<lparr> data := map (\<lambda>x. fsub m x) (data (last chans)) \<rparr>,
                          ndim (filter_input HESSIAN_BRIGHT fvol)))"
    if "vigra_filter name (filter_input HESSIAN_BRIGHT fvol) sigma = chans"
      and "length chans = ndim (filter_input HESSIAN_BRIGHT fvol)" and "chans \<noteq> []"
    using len that
      parallel_filter_of_last
        [of vigra_filter name "filter_input HESSIAN_BRIGHT fvol" sigma chans "max 1 n"]
    by (simp add: OpFilter_response_def channel_of_def Let_def split: sum.splits)
  have dark: "fst (OpFilter_response (parallel_filter_of vigra_filter) HESSIAN_DARK name sigma n fvol)
        = Inr (hd chans, ndim (filter_input HESSIAN_DARK fvol))"
    if "vigra_filter name (filter_input HESSIAN_DARK fvol) sigma = chans" and "chans \<noteq> []"
    using len that
      parallel_filter_of_first
        [of vigra_filter name "filter_input HESSIAN_DARK fvol" sigma chans "max 1 n"]
    by (simp add: OpFilter_response_def channel_of_def HESSIAN_DARK_def HESSIAN_BRIGHT_def Let_def)
  have other: "fst (OpFilter_response parallel_filter volume_filter name sigma n fvol)
        = (case parallel_filter name (filter_input volume_filter fvol) sigma (max 1 n)
                  (channel_of volume_filter (filter_input volume_filter fvol)) of
             Inl e \<Rightarrow> Inl e
           | Inr response \<Rightarrow> Inr (response, ndim (filter_input volume_filter fvol)))"
    if "volume_filter \<noteq> HESSIAN_BRIGHT"
    using len that by (simp add: OpFilter_response_def Let_def split: sum.splits)
  have none: "channel_of volume_filter (filter_input volume_filter fvol) = None"
    if "volume_filter \<noteq> HESSIAN_BRIGHT" and "volume_filter \<noteq> HESSIAN_DARK"
    using that by (simp add: channel_of_def)
  show ?thesis using bright dark other none by blast
qed

theorem ridge_channel_and_inversion_witness:
  "fst (OpFilter_response (parallel_filter_of sample_filter) HESSIAN_BRIGHT
          ''hessianOfGaussianEigenvalues'' 1.6 0
          \<lparr> shape = [2,2,1], data = [Fin 1, Fin 2, Fin 3, Fin 4] \<rparr>)
     = Inr (\<lparr> shape = [2,2], data = [Fin 3, Fin 2, Fin 1, Fin 0] \<rparr>, 2)
   \<and> fst (OpFilter_response (parallel_filter_of sample_filter) HESSIAN_DARK
          ''hessianOfGaussianEigenvalues'' 1.6 0
          \<lparr> shape = [2,2,1], data = [Fin 1, Fin 2, Fin 3, Fin 4] \<rparr>)
     = Inr (\<lparr> shape = [2,2], data = [Fin 1, Fin 2, Fin 3, Fin 4] \<rparr>, 2)"
proof -
  have h: "2 < length (shape \<lparr> shape = [2,2,1], data = [Fin 1, Fin 2, Fin 3, Fin 4] \<rparr>)"
    by simp
  have cb: "sample_filter ''hessianOfGaussianEigenvalues''
              (filter_input HESSIAN_BRIGHT \<lparr> shape = [2,2,1], data = [Fin 1, Fin 2, Fin 3, Fin 4] \<rparr>)
              1.6
            = [\<lparr> shape = [2,2], data = [Fin 1, Fin 2, Fin 3, Fin 4] \<rparr>,
               \<lparr> shape = [2,2], data = [Fin 2, Fin 3, Fin 4, Fin 5] \<rparr>]"
    by code_simp
  have nb: "ndim (filter_input HESSIAN_BRIGHT
              \<lparr> shape = [2,2,1], data = [Fin 1, Fin 2, Fin 3, Fin 4] \<rparr>) = 2"
    by code_simp
  have cd: "sample_filter ''hessianOfGaussianEigenvalues''
              (filter_input HESSIAN_DARK \<lparr> shape = [2,2,1], data = [Fin 1, Fin 2, Fin 3, Fin 4] \<rparr>)
              1.6
            = [\<lparr> shape = [2,2], data = [Fin 1, Fin 2, Fin 3, Fin 4] \<rparr>,
               \<lparr> shape = [2,2], data = [Fin 2, Fin 3, Fin 4, Fin 5] \<rparr>]"
    by code_simp
  have nd: "ndim (filter_input HESSIAN_DARK
              \<lparr> shape = [2,2,1], data = [Fin 1, Fin 2, Fin 3, Fin 4] \<rparr>) = 2"
    by code_simp
  have mx: "numpy_max [Fin 2, Fin 3, Fin 4, Fin 5] = Inr (Fin 5)" by simp
  have r3: "round32 3 = Fin 3" by code_simp
  have r2: "round32 2 = Fin 2" by code_simp
  have r1: "round32 1 = Fin 1" by code_simp
  have r0: "round32 0 = Fin 0" by (simp add: round32_def)
  show ?thesis
    using cb nb cd nd mx
      ridge_channel_and_inversion
        [OF h, where volume_filter = HESSIAN_BRIGHT and vigra_filter = sample_filter
           and name = "''hessianOfGaussianEigenvalues''" and sigma = "1.6" and n = 0
           and chans = "[\<lparr> shape = [2,2], data = [Fin 1, Fin 2, Fin 3, Fin 4] \<rparr>,
                         \<lparr> shape = [2,2], data = [Fin 2, Fin 3, Fin 4, Fin 5] \<rparr>]"]
      ridge_channel_and_inversion
        [OF h, where volume_filter = HESSIAN_DARK and vigra_filter = sample_filter
           and name = "''hessianOfGaussianEigenvalues''" and sigma = "1.6" and n = 0
           and chans = "[\<lparr> shape = [2,2], data = [Fin 1, Fin 2, Fin 3, Fin 4] \<rparr>,
                         \<lparr> shape = [2,2], data = [Fin 2, Fin 3, Fin 4, Fin 5] \<rparr>]"]
    by (simp add: fsub_def r3 r2 r1 r0)
qed

end
